theory Spec2Isabelle
  imports Complex_Main
begin

section \<open>Errors and results\<close>

text \<open>
  Every Python exception of the modelled code is a value of \<open>error\<close>; a computation that
  may raise returns \<open>error + 'a\<close> with \<open>Inl\<close> the exception. The arrays hold real numbers
  and the arithmetic is exact. Where the floating-point code divides by zero or takes the
  square root of a negative number it does not raise: it goes on with NaN or infinite
  numbers and can return a result that holds them. These numbers have no counterpart in
  \<open>real\<close>; such a run is the value \<open>NonFinite\<close>, which is no exception of the code, and a
  statement about the results \<open>Inr r\<close> of a function is a statement about its finite
  results only.
\<close>

datatype error = AssertionError | AttributeError | IndexError | ValueError | NonFinite

definition bind_err :: "error + 'a \<Rightarrow> ('a \<Rightarrow> error + 'b) \<Rightarrow> error + 'b" where
  "bind_err m k = (case m of Inl e \<Rightarrow> Inl e | Inr x \<Rightarrow> k x)"

type_synonym vec = "real list"

section \<open>The indicator interface (indicators/indicator.py)\<close>

text \<open>
  Modelled from the spec: the backend's introspection \<open>ndim\<close> and \<open>len\<close> (section 6 of
  the specification; the backend module is not among the sources). An input of
  \<open>Indicator.__call__\<close> is an array of any dimension; \<open>len\<close> of a zero-dimensional array
  raises in Python and is only evaluated here after \<open>ndim = 1\<close> has been asserted.
\<close>

record ndarray =
  shape :: "nat list"
  data :: vec

definition ndim :: "ndarray \<Rightarrow> nat" where
  "ndim x = length (shape x)"

definition len :: "ndarray \<Rightarrow> nat" where
  "len x = (case shape x of [] \<Rightarrow> 0 | n # _ \<Rightarrow> n)"

text \<open>\<open>Indicator.Result\<close>; the back-reference to the indicator is not represented.\<close>

record 'kw result =
  ind_a :: ndarray
  ind_b :: ndarray
  ind_value :: real
  ind_num_call :: nat
  ind_kwargs :: 'kw

text \<open>The mutable part of an instance: \<open>_num_calls\<close> and \<open>_last_result\<close>.\<close>

record 'r indicator_state =
  num_calls :: nat
  last_result :: "'r option"

text \<open>
  \<open>Indicator.__call__\<close>. The abstract method \<open>_value\<close> and the callable \<open>_factor\<close> stored
  at construction are the parameters \<open>value_fn\<close> and \<open>factor\<close>; the cast to float is the
  identity on reals. The function returns the outcome together with the instance state
  after the call.
\<close>

definition call ::
  "('kw result indicator_state \<Rightarrow> vec \<Rightarrow> vec \<Rightarrow> error + real \<times> 'kw) \<Rightarrow>
   (ndarray \<Rightarrow> ndarray \<Rightarrow> real) \<Rightarrow> 'kw result indicator_state \<Rightarrow> ndarray \<Rightarrow> ndarray \<Rightarrow>
   (error + 'kw result) \<times> 'kw result indicator_state" where
  "call value_fn factor st x y =
     (if \<not> (ndim x = ndim y \<and> ndim y = 1) then (Inl AssertionError, st)
      else if len x \<noteq> len y then (Inl AssertionError, st)
      else
        let st1 = st\<lparr>num_calls := num_calls st + 1\<rparr> in
        (case value_fn st1 (data x) (data y) of
           Inl e \<Rightarrow> (Inl e, st1)
         | Inr (v, kw) \<Rightarrow>
             let res = \<lparr>ind_a = x, ind_b = y, ind_value = v * factor x y,
                        ind_num_call = num_calls st1, ind_kwargs = kw\<rparr>
             in (Inr res, st1\<lparr>last_result := Some res\<rparr>)))"

text \<open>
  \<open>CopulaIndicator.f\<close> and \<open>CopulaIndicator.g\<close>: the assertion on \<open>last_result\<close>, then the
  abstract \<open>_f\<close> / \<open>_g\<close>, given as a parameter.
\<close>

definition copula_f ::
  "('r indicator_state \<Rightarrow> vec \<Rightarrow> error + vec) \<Rightarrow> 'r indicator_state \<Rightarrow> vec \<Rightarrow> error + vec" where
  "copula_f f_impl st x =
     (if last_result st = None then Inl AssertionError else f_impl st x)"

definition copula_g ::
  "('r indicator_state \<Rightarrow> vec \<Rightarrow> error + vec) \<Rightarrow> 'r indicator_state \<Rightarrow> vec \<Rightarrow> error + vec" where
  "copula_g g_impl st y =
     (if last_result st = None then Inl AssertionError else g_impl st y)"

section \<open>The numeric backend\<close>

text \<open>
  Modelled from the spec: the vector and matrix primitives of the backend (section 6 of
  the specification; the module \<open>cfair.backend\<close> is not among the sources): mean,
  population variance and standard deviation, the standardisation
  \<open>(v - mean v) / (std v + eps)\<close>, products, and the stacking of vectors as the columns
  of a matrix. A matrix is its number of rows and the list of its columns, each of that
  length. The standardisation of a non-empty vector with \<open>std v + eps = 0\<close> divides by
  zero: the code returns NaN or infinite entries there, which is \<open>NonFinite\<close> here.
\<close>

definition mean :: "vec \<Rightarrow> real" where
  "mean v = sum_list v / real (length v)"

definition var :: "vec \<Rightarrow> real" where
  "var v = mean (map (\<lambda>x. (x - mean v) ^ 2) v)"

definition std :: "vec \<Rightarrow> real" where
  "std v = sqrt (var v)"

definition standardize :: "vec \<Rightarrow> real \<Rightarrow> error + vec" where
  "standardize v e =
     (if v \<noteq> [] \<and> std v + e = 0 then Inl NonFinite
      else Inr (map (\<lambda>x. (x - mean v) / (std v + e)) v))"

record matrix =
  nrows :: nat
  cols :: "vec list"

definition ncols :: "matrix \<Rightarrow> nat" where
  "ncols m = length (cols m)"

definition row :: "matrix \<Rightarrow> nat \<Rightarrow> vec" where
  "row m i = map (\<lambda>c. c ! i) (cols m)"

definition wf_matrix :: "matrix \<Rightarrow> bool" where
  "wf_matrix m = list_all (\<lambda>c. length c = nrows m) (cols m)"

definition dotp :: "vec \<Rightarrow> vec \<Rightarrow> real" where
  "dotp u v = sum_list (map2 (*) u v)"

text \<open>\<open>matmul\<close> of two vectors, of a matrix and a vector, of two matrices.\<close>

definition vdot :: "vec \<Rightarrow> vec \<Rightarrow> error + real" where
  "vdot u v = (if length u \<noteq> length v then Inl ValueError else Inr (dotp u v))"

definition matvec :: "matrix \<Rightarrow> vec \<Rightarrow> error + vec" where
  "matvec m v =
     (if length v \<noteq> ncols m then Inl ValueError
      else Inr (map (\<lambda>i. dotp (row m i) v) [0..<nrows m]))"

definition matmul :: "matrix \<Rightarrow> matrix \<Rightarrow> error + matrix" where
  "matmul m1 m2 =
     (if ncols m1 \<noteq> nrows m2 then Inl ValueError
      else Inr \<lparr>nrows = nrows m1,
                cols = map (\<lambda>c. map (\<lambda>i. dotp (row m1 i) c) [0..<nrows m1]) (cols m2)\<rparr>)"

definition transpose_m :: "matrix \<Rightarrow> matrix" where
  "transpose_m m = \<lparr>nrows = ncols m, cols = map (\<lambda>i. row m i) [0..<nrows m]\<rparr>"

definition smult :: "real \<Rightarrow> matrix \<Rightarrow> matrix" where
  "smult k m = \<lparr>nrows = nrows m, cols = map (map (\<lambda>x. k * x)) (cols m)\<rparr>"

text \<open>Elementwise operations on two vectors broadcast an operand of length one.\<close>

definition broadcast2 :: "(real \<Rightarrow> real \<Rightarrow> real) \<Rightarrow> vec \<Rightarrow> vec \<Rightarrow> error + vec" where
  "broadcast2 h u v =
     (if length u = length v then Inr (map2 h u v)
      else if length u = 1 then Inr (map (\<lambda>y. h (hd u) y) v)
      else if length v = 1 then Inr (map (\<lambda>x. h x (hd v)) u)
      else Inl ValueError)"

text \<open>\<open>concatenate((m1, m2), axis=1)\<close>.\<close>

definition concat_cols :: "matrix \<Rightarrow> matrix \<Rightarrow> error + matrix" where
  "concat_cols m1 m2 =
     (if nrows m1 \<noteq> nrows m2 then Inl ValueError
      else Inr \<lparr>nrows = nrows m1, cols = cols m1 @ cols m2\<rparr>)"

text \<open>Indexing with a list of indices: \<open>v[idxs]\<close>, and the selection of columns.\<close>

definition take_idx :: "'a list \<Rightarrow> nat list \<Rightarrow> error + 'a list" where
  "take_idx v idxs =
     (if list_all (\<lambda>i. i < length v) idxs then Inr (map (\<lambda>i. v ! i) idxs)
      else Inl IndexError)"

definition select_cols :: "matrix \<Rightarrow> nat list \<Rightarrow> error + matrix" where
  "select_cols m idxs =
     bind_err (take_idx (cols m) idxs) (\<lambda>cs. Inr \<lparr>nrows = nrows m, cols = cs\<rparr>)"

text \<open>
  Assignment through a list of indices, \<open>base[idxs] = vals\<close>: the values are written in
  order (the last one wins on a repeated index), a single value is broadcast to every
  index, any other difference of lengths is a ValueError.
\<close>

fun scatter :: "'a list \<Rightarrow> nat list \<Rightarrow> 'a list \<Rightarrow> 'a list" where
  "scatter base (i # idxs) (v # vals) = scatter (base[i := v]) idxs vals"
| "scatter base _ _ = base"

definition put_idx :: "'a list \<Rightarrow> nat list \<Rightarrow> 'a list \<Rightarrow> error + 'a list" where
  "put_idx base idxs vals =
     (if \<not> list_all (\<lambda>i. i < length base) idxs then Inl IndexError
      else if length vals = length idxs then Inr (scatter base idxs vals)
      else if length vals = 1 then Inr (scatter base idxs (replicate (length idxs) (hd vals)))
      else Inl ValueError)"

definition assign_cols :: "matrix \<Rightarrow> nat list \<Rightarrow> matrix \<Rightarrow> error + matrix" where
  "assign_cols m idxs src =
     (if nrows src = nrows m then
        bind_err (put_idx (cols m) idxs (cols src)) (\<lambda>cs. Inr (m\<lparr>cols := cs\<rparr>))
      else if nrows src = 1 then
        bind_err (put_idx (cols m) idxs (map (\<lambda>c. replicate (nrows m) (hd c)) (cols src)))
          (\<lambda>cs. Inr (m\<lparr>cols := cs\<rparr>))
      else Inl ValueError)"

definition ones_matrix :: "nat \<Rightarrow> nat \<Rightarrow> matrix" where
  "ones_matrix n k = \<lparr>nrows = n, cols = replicate k (replicate n 1)\<rparr>"

section \<open>The kernel-based estimator (hgr/kernel.py)\<close>

text \<open>\<open>KernelBasedHGR.kernel\<close>: column \<open>k\<close> holds \<open>v ^ k - mean (v ^ k)\<close> for \<open>k = 1..degree\<close>.\<close>

definition kernel :: "vec \<Rightarrow> nat \<Rightarrow> matrix" where
  "kernel v degree =
     \<lparr>nrows = length v,
      cols = map (\<lambda>d. map (\<lambda>x. x ^ d - mean (map (\<lambda>z. z ^ d) v)) v) [1..<degree + 1]\<rparr>"

text \<open>
  The configuration fields of \<open>KernelBasedHGR\<close>; the field \<open>method\<close> of the source is \<open>opt_method\<close>.
\<close>

record config =
  opt_method :: string
  maxiter :: nat
  eps :: real
  tol :: real
  use_lstsq :: bool
  delta :: real
  lasso :: real

text \<open>
  What \<open>_higher_order_coefficients\<close> hands to \<open>scipy.optimize.minimize\<close>: the objective
  with its gradient, the constant Hessian, the starting point, and the equality
  constraint (function, jacobian, Hessian and the two bounds).
\<close>

record solver_problem =
  sp_fun :: "vec \<Rightarrow> error + real \<times> vec"
  sp_hess :: matrix
  sp_x0 :: vec
  sp_cst_fun :: "vec \<Rightarrow> error + real"
  sp_cst_jac :: "vec \<Rightarrow> error + vec"
  sp_cst_hess :: matrix
  sp_cst_lb :: real
  sp_cst_ub :: real
  sp_method :: string
  sp_tol :: real
  sp_maxiter :: nat

text \<open>
  The numerical libraries are parameters of the model: the absolute values are taken by
  the code itself, so \<open>qr_r_diag\<close> stands for \<open>diag(scipy.linalg.qr(m, mode='r')[0])\<close>,
  \<open>lstsq\<close> for the backend's least-squares solve and \<open>minimize\<close> for the point \<open>s.x\<close>
  returned by \<open>scipy.optimize.minimize\<close>.
\<close>

record externals =
  qr_r_diag :: "matrix \<Rightarrow> error + vec"
  lstsq :: "matrix \<Rightarrow> vec \<Rightarrow> error + vec"
  minimize :: "solver_problem \<Rightarrow> error + vec"

text \<open>\<open>KernelBasedHGR.Result\<close>; the back-reference \<open>hgr\<close> is not represented.\<close>

record kb_result =
  res_a :: vec
  res_b :: vec
  correlation :: real
  num_call :: nat
  alpha :: vec
  beta :: vec

subsection \<open>The linear dependence detector\<close>

text \<open>
  The positions of the columns of F and of G in the matrix \<open>[1 | F_1 | G_1 | F_2 | ...]\<close>
  (lines 83 to 88 of \<open>_get_linearly_independent\<close>).
\<close>

definition aug_indices :: "nat \<Rightarrow> nat \<Rightarrow> nat list \<times> nat list" where
  "aug_indices dx dy =
     (let d = dx + dy in
      if dx < dy then
        (map (\<lambda>i. 2 * i + 1) [0..<dx],
         map (\<lambda>i. 2 * i + 2) [0..<dx] @ map (\<lambda>i. i + 1) [2 * dx..<d])
      else
        (map (\<lambda>i. 2 * i + 1) [0..<dy] @ map (\<lambda>i. i + 1) [2 * dy..<d],
         map (\<lambda>i. 2 * i + 2) [0..<dy]))"

text \<open>
  The indices kept for a variable with \<open>k\<close> columns whose diagonal entries are \<open>r\<close>
  (lines 103 to 105): the indices with an entry at most \<open>delta\<close>, without the first of
  them, are the ones left out.
\<close>

definition independent_of :: "real \<Rightarrow> nat \<Rightarrow> vec \<Rightarrow> nat list" where
  "independent_of dlt k r =
     (let dep = tl (filter (\<lambda>i. r ! i \<le> dlt) [0..<k])
      in filter (\<lambda>idx. idx \<notin> set dep) [0..<k])"

text \<open>The matrix \<open>fg_bias\<close>: a column of ones, then the columns of F and G at their positions.\<close>

definition augmented :: "matrix \<Rightarrow> matrix \<Rightarrow> error + matrix" where
  "augmented fm gm =
     (let dx = ncols fm; dy = ncols gm; d = dx + dy in
      bind_err (assign_cols (ones_matrix (nrows fm) (d + 1)) (fst (aug_indices dx dy)) fm) (\<lambda>m1.
        assign_cols m1 (snd (aug_indices dx dy)) gm))"

definition get_linearly_independent ::
  "externals \<Rightarrow> config \<Rightarrow> matrix \<Rightarrow> matrix \<Rightarrow> error + nat list \<times> nat list" where
  "get_linearly_independent ext cfg fm gm =
     (let dx = ncols fm; dy = ncols gm;
          f_indices = fst (aug_indices dx dy);
          g_indices = snd (aug_indices dx dy)
      in
      bind_err (augmented fm gm) (\<lambda>fg_bias.
      bind_err (qr_r_diag ext fg_bias) (\<lambda>rd.
      let r = map abs rd in
      bind_err (take_idx r f_indices) (\<lambda>rf.
      bind_err (take_idx r g_indices) (\<lambda>rg.
        Inr (independent_of (delta cfg) dx rf, independent_of (delta cfg) dy rg))))))"

text \<open>
  The diagonal entry that belongs to column \<open>i\<close> of a variable whose columns stand at
  the positions \<open>idxs\<close> of the augmented matrix.
\<close>

definition diag_entry :: "vec \<Rightarrow> nat list \<Rightarrow> nat \<Rightarrow> real" where
  "diag_entry rd idxs i = \<bar>rd ! (idxs ! i)\<bar>"

subsection \<open>The constrained least-squares problem\<close>

text \<open>
  The closure \<open>_fun\<close> of \<open>_higher_order_coefficients\<close>, with the captured matrices
  \<open>f_slim\<close>, \<open>g_slim\<close>, \<open>fg = [f_slim | -g_slim]\<close> and the lasso weight as arguments. It
  returns the value and the gradient (\<open>jac=True\<close>).
\<close>

definition objective :: "matrix \<Rightarrow> matrix \<Rightarrow> matrix \<Rightarrow> real \<Rightarrow> vec \<Rightarrow> error + real \<times> vec" where
  "objective f_slim g_slim fg lam inp =
     (let dx = ncols f_slim; alp = take dx inp; bet = drop dx inp in
      bind_err (matvec f_slim alp) (\<lambda>fa.
      bind_err (matvec g_slim bet) (\<lambda>gb.
      bind_err (broadcast2 (-) fa gb) (\<lambda>diff.
      bind_err (vdot diff diff) (\<lambda>obj_func.
      bind_err (matvec (smult 2 (transpose_m fg)) diff) (\<lambda>obj_grad.
      let pen_func = sum_list (map abs inp);
          pen_grad = map sgn inp
      in
      bind_err (broadcast2 (+) obj_grad (map (\<lambda>x. lam * x) pen_grad)) (\<lambda>grad.
      Inr (obj_func + lam * pen_func, grad))))))))"

text \<open>
  The constraint \<open>var(G @ beta) = 1\<close>: its function (\<open>np.var\<close> with \<open>ddof=0\<close>), its
  jacobian and its constant Hessian. The variance of no sample and a division by
  \<open>n = 0\<close> are not finite.
\<close>

definition constraint_fun :: "matrix \<Rightarrow> nat \<Rightarrow> vec \<Rightarrow> error + real" where
  "constraint_fun g_slim dx inp =
     bind_err (matvec g_slim (drop dx inp)) (\<lambda>y.
       if y = [] then Inl NonFinite else Inr (var y))"

definition constraint_jac :: "matrix \<Rightarrow> nat \<Rightarrow> nat \<Rightarrow> vec \<Rightarrow> error + vec" where
  "constraint_jac g_slim dx n inp =
     bind_err (matmul (smult 2 (transpose_m g_slim)) g_slim) (\<lambda>gg.
     bind_err (matvec gg (drop dx inp)) (\<lambda>v.
       if n = 0 \<and> v \<noteq> [] then Inl NonFinite
       else Inr (replicate dx 0 @ map (\<lambda>x. x / real n) v)))"

definition constraint_hess :: "matrix \<Rightarrow> nat \<Rightarrow> nat \<Rightarrow> error + matrix" where
  "constraint_hess g_slim dx n =
     bind_err (matmul (smult 2 (transpose_m g_slim)) g_slim) (\<lambda>gg.
       if n = 0 \<and> cols gg \<noteq> [] then Inl NonFinite
       else Inr \<lparr>nrows = dx + ncols g_slim,
                 cols = replicate dx (replicate (dx + ncols g_slim) 0)
                        @ map (\<lambda>c. replicate dx 0 @ map (\<lambda>x. x / real n) c) (cols gg)\<rparr>)"

text \<open>
  The starting point of one variable (lines 167 and 168): without a previous coefficient
  vector, ones divided by \<open>sqrt (var (row sums) + eps)\<close>; with one, its entries at the
  retained indices.
\<close>

definition initial_guess :: "real \<Rightarrow> matrix \<Rightarrow> vec option \<Rightarrow> nat list \<Rightarrow> error + vec" where
  "initial_guess e slim v0 idxs =
     (case v0 of
        None \<Rightarrow>
          (let s = var (map (\<lambda>i. sum_list (row slim i)) [0..<nrows slim]) in
           if ncols slim \<noteq> 0 \<and> (nrows slim = 0 \<or> s + e \<le> 0) then Inl NonFinite
           else Inr (replicate (ncols slim) (1 / sqrt (s + e))))
      | Some v \<Rightarrow> take_idx v idxs)"

definition neg_m :: "matrix \<Rightarrow> matrix" where
  "neg_m m = \<lparr>nrows = nrows m, cols = map (map uminus) (cols m)\<rparr>"

text \<open>The problem given to the solver for the reduced matrices and a starting point.\<close>

definition solver_problem_of ::
  "config \<Rightarrow> matrix \<Rightarrow> matrix \<Rightarrow> matrix \<Rightarrow> matrix \<Rightarrow> matrix \<Rightarrow> vec \<Rightarrow> solver_problem" where
  "solver_problem_of cfg f_slim g_slim fg fun_hess cst_hess x0 =
     \<lparr>sp_fun = objective f_slim g_slim fg (lasso cfg),
      sp_hess = fun_hess,
      sp_x0 = x0,
      sp_cst_fun = constraint_fun g_slim (ncols f_slim),
      sp_cst_jac = constraint_jac g_slim (ncols f_slim) (nrows f_slim),
      sp_cst_hess = cst_hess,
      sp_cst_lb = 1,
      sp_cst_ub = 1,
      sp_method = opt_method cfg,
      sp_tol = tol cfg,
      sp_maxiter = maxiter cfg\<rparr>"

text \<open>
  Everything \<open>_higher_order_coefficients\<close> computes before it calls the solver: the
  retained indices, the reduced matrices and the problem.
\<close>

definition higher_order_problem ::
  "externals \<Rightarrow> config \<Rightarrow> matrix \<Rightarrow> matrix \<Rightarrow> vec option \<Rightarrow> vec option \<Rightarrow>
   error + (nat list \<times> nat list) \<times> solver_problem" where
  "higher_order_problem ext cfg fm gm a0 b0 =
     bind_err (get_linearly_independent ext cfg fm gm) (\<lambda>(f_indices, g_indices).
     bind_err (select_cols fm f_indices) (\<lambda>f_slim.
     bind_err (select_cols gm g_indices) (\<lambda>g_slim.
     bind_err (concat_cols f_slim (neg_m g_slim)) (\<lambda>fg.
     bind_err (matmul (smult 2 (transpose_m fg)) fg) (\<lambda>fun_hess.
     bind_err (constraint_hess g_slim (ncols f_slim) (nrows f_slim)) (\<lambda>cst_hess.
     bind_err (initial_guess (eps cfg) f_slim a0 f_indices) (\<lambda>a1.
     bind_err (initial_guess (eps cfg) g_slim b0 g_indices) (\<lambda>b1.
       Inr ((f_indices, g_indices),
            solver_problem_of cfg f_slim g_slim fg fun_hess cst_hess (a1 @ b1))))))))))"

text \<open>
  \<open>_higher_order_coefficients\<close>: the solve and the reconstruction of the full-length
  vectors (lines 180 to 185).
\<close>

definition higher_order_coefficients ::
  "externals \<Rightarrow> config \<Rightarrow> matrix \<Rightarrow> matrix \<Rightarrow> vec option \<Rightarrow> vec option \<Rightarrow> error + vec \<times> vec" where
  "higher_order_coefficients ext cfg fm gm a0 b0 =
     bind_err (higher_order_problem ext cfg fm gm a0 b0) (\<lambda>((f_indices, g_indices), p).
     bind_err (minimize ext p) (\<lambda>x.
     let dx = length f_indices in
     bind_err (put_idx (replicate (ncols fm) 0) f_indices (take dx x)) (\<lambda>alp.
     bind_err (put_idx (replicate (ncols gm) 0) g_indices (drop dx x)) (\<lambda>bet.
       Inr (alp, bet)))))"

subsection \<open>The correlation of two vectors\<close>

text \<open>
  The four cases of \<open>_kbhgr\<close> (lines 197 to 215): the coefficient vectors and the two
  standardised projections.
\<close>

definition kbhgr_projections ::
  "externals \<Rightarrow> config \<Rightarrow> vec \<Rightarrow> vec \<Rightarrow> nat \<Rightarrow> nat \<Rightarrow> vec option \<Rightarrow> vec option \<Rightarrow>
   error + vec \<times> vec \<times> vec \<times> vec" where
  "kbhgr_projections ext cfg x y degree_a degree_b a0 b0 =
     (let fm = kernel x degree_a; gm = kernel y degree_b in
      if degree_a = 1 \<and> degree_b = 1 then
        bind_err (standardize x (eps cfg)) (\<lambda>fa.
        bind_err (standardize y (eps cfg)) (\<lambda>gb.
          Inr ([1], [1], fa, gb)))
      else if degree_a = 1 \<and> use_lstsq cfg then
        bind_err (standardize x (eps cfg)) (\<lambda>fa.
        bind_err (lstsq ext gm fa) (\<lambda>bet.
        bind_err (matvec gm bet) (\<lambda>gbet.
        bind_err (standardize gbet (eps cfg)) (\<lambda>gb.
          Inr ([1], bet, fa, gb)))))
      else if degree_b = 1 \<and> use_lstsq cfg then
        bind_err (standardize y (eps cfg)) (\<lambda>gb.
        bind_err (lstsq ext fm gb) (\<lambda>alp.
        bind_err (matvec fm alp) (\<lambda>falp.
        bind_err (standardize falp (eps cfg)) (\<lambda>fa.
          Inr (alp, [1], fa, gb)))))
      else
        bind_err (higher_order_coefficients ext cfg fm gm a0 b0) (\<lambda>(alp, bet).
        bind_err (matvec fm alp) (\<lambda>falp.
        bind_err (standardize falp (eps cfg)) (\<lambda>fa.
        bind_err (matvec gm bet) (\<lambda>gbet.
        bind_err (standardize gbet (eps cfg)) (\<lambda>gb.
          Inr (alp, bet, fa, gb)))))))"

text \<open>
  \<open>_kbhgr\<close>: the correlation is \<open>abs (matmul(fa, gb) / len(fa))\<close>; with no sample the
  quotient is 0/0.
\<close>

definition kbhgr ::
  "externals \<Rightarrow> config \<Rightarrow> kb_result indicator_state \<Rightarrow> vec \<Rightarrow> vec \<Rightarrow> nat \<Rightarrow> nat \<Rightarrow>
   vec option \<Rightarrow> vec option \<Rightarrow> error + kb_result" where
  "kbhgr ext cfg st x y degree_a degree_b a0 b0 =
     bind_err (kbhgr_projections ext cfg x y degree_a degree_b a0 b0) (\<lambda>(alp, bet, fa, gb).
     bind_err (vdot fa gb) (\<lambda>p.
       if length fa = 0 then Inl NonFinite
       else Inr \<lparr>res_a = x, res_b = y, correlation = \<bar>p / real (length fa)\<bar>,
                 num_call = num_calls st, alpha = alp, beta = bet\<rparr>))"

subsection \<open>The two variants\<close>

definition warm_start :: "kb_result indicator_state \<Rightarrow> vec option \<times> vec option" where
  "warm_start st =
     (case last_result st of None \<Rightarrow> (None, None) | Some r \<Rightarrow> (Some (alpha r), Some (beta r)))"

definition DoubleKernelHGR_compute ::
  "externals \<Rightarrow> config \<Rightarrow> nat \<Rightarrow> nat \<Rightarrow> kb_result indicator_state \<Rightarrow> vec \<Rightarrow> vec \<Rightarrow>
   error + kb_result" where
  "DoubleKernelHGR_compute ext cfg degree_a degree_b st x y =
     (let (a0, b0) = warm_start st
      in kbhgr ext cfg st x y degree_a degree_b a0 b0)"

text \<open>Reading and writing the entry 0 of a vector (\<open>v[0]\<close>, \<open>v[0] = c\<close>).\<close>

definition get0 :: "vec \<Rightarrow> error + real" where
  "get0 v = (case v of [] \<Rightarrow> Inl IndexError | c # _ \<Rightarrow> Inr c)"

definition set0 :: "vec \<Rightarrow> real \<Rightarrow> error + vec" where
  "set0 v c = (case v of [] \<Rightarrow> Inl IndexError | _ # w \<Rightarrow> Inr (c # w))"

definition SingleKernelHGR_compute ::
  "externals \<Rightarrow> config \<Rightarrow> nat \<Rightarrow> kb_result indicator_state \<Rightarrow> vec \<Rightarrow> vec \<Rightarrow> error + kb_result" where
  "SingleKernelHGR_compute ext cfg degree st x y =
     (let (a0, b0) = warm_start st in
      bind_err (kbhgr ext cfg st x y degree 1 a0 None) (\<lambda>ra.
      bind_err (kbhgr ext cfg st x y 1 degree None b0) (\<lambda>rb.
      let cor_a = correlation ra;
          cor_b = correlation rb
      in
      bind_err
        (if cor_a > cor_b then
           bind_err (get0 (beta ra)) (\<lambda>c.
           bind_err (set0 (replicate degree 0) c) (\<lambda>bet. Inr (alpha ra, bet)))
         else
           bind_err (get0 (alpha rb)) (\<lambda>c.
           bind_err (set0 (replicate degree 0) c) (\<lambda>alp. Inr (alp, beta rb))))
        (\<lambda>(alp, bet).
           Inr \<lparr>res_a = x, res_b = y, correlation = max cor_a cor_b,
                num_call = num_calls st, alpha = alp, beta = bet\<rparr>))))"

subsection \<open>Re-applying the transformations\<close>

text \<open>
  \<open>KernelBasedHGR._f\<close> and \<open>_g\<close>: the kernel of the vector times the stored coefficients;
  reading \<open>alpha\<close> of an empty \<open>last_result\<close> is an AttributeError.
\<close>

definition kb_f :: "nat \<Rightarrow> kb_result indicator_state \<Rightarrow> vec \<Rightarrow> error + vec" where
  "kb_f degree_a st x =
     (case last_result st of
        None \<Rightarrow> Inl AttributeError
      | Some r \<Rightarrow> matvec (kernel x degree_a) (alpha r))"

definition kb_g :: "nat \<Rightarrow> kb_result indicator_state \<Rightarrow> vec \<Rightarrow> error + vec" where
  "kb_g degree_b st y =
     (case last_result st of
        None \<Rightarrow> Inl AttributeError
      | Some r \<Rightarrow> matvec (kernel y degree_b) (beta r))"

section \<open>The detector in the words of the specification\<close>

text \<open>
  The columns kept for one variable, from the diagonal entries: a column is kept when its
  entry exceeds \<open>delta\<close> or when no earlier column of the same variable has an entry at
  or below \<open>delta\<close> (the first flagged column stays).
\<close>

definition kept_columns :: "real \<Rightarrow> vec \<Rightarrow> nat list \<Rightarrow> nat \<Rightarrow> nat list" where
  "kept_columns dlt rd idxs k =
     filter (\<lambda>i. dlt < diag_entry rd idxs i
                  \<or> list_all (\<lambda>j. dlt < diag_entry rd idxs j) [0..<i]) [0..<k]"

text \<open>
  The reading in which only column 0 is exempt: a column is kept when it is column 0 or
  its entry exceeds \<open>delta\<close>.
\<close>

definition claimed_columns :: "real \<Rightarrow> vec \<Rightarrow> nat list \<Rightarrow> nat \<Rightarrow> nat list" where
  "claimed_columns dlt rd idxs k =
     filter (\<lambda>i. i = 0 \<or> dlt < diag_entry rd idxs i) [0..<k]"

section \<open>The least-squares problem in the words of the specification\<close>

text \<open>
  The entry in row \<open>i\<close> and column \<open>j\<close> of a matrix, and of the matrix \<open>[F  -G]\<close>
  of the objective.
\<close>

definition entry :: "matrix \<Rightarrow> nat \<Rightarrow> nat \<Rightarrow> real" where
  "entry m i j = cols m ! j ! i"

definition fg_entry :: "matrix \<Rightarrow> matrix \<Rightarrow> nat \<Rightarrow> nat \<Rightarrow> real" where
  "fg_entry F G i j = (if j < ncols F then entry F i j else - entry G i (j - ncols F))"

text \<open>The matrix \<open>fg\<close> of the code, \<open>concatenate((f_slim, -g_slim), axis=1)\<close>.\<close>

definition fgm :: "matrix \<Rightarrow> matrix \<Rightarrow> matrix" where
  "fgm F G = \<lparr>nrows = nrows F, cols = cols F @ cols (neg_m G)\<rparr>"

text \<open>
  Component \<open>i\<close> of \<open>F alpha - G beta\<close>; the objective
  \<open>||F alpha - G beta||^2 + lambda ||[alpha, beta]||_1\<close>; its gradient
  \<open>2 [F -G]^T (F alpha - G beta) + lambda sign([alpha, beta])\<close>; the entries of
  \<open>2 [F -G]^T [F -G]\<close>; and the variance of \<open>n\<close> values with the denominator \<open>n\<close>.
\<close>

definition residual :: "matrix \<Rightarrow> matrix \<Rightarrow> vec \<Rightarrow> vec \<Rightarrow> nat \<Rightarrow> real" where
  "residual F G alp bet i =
     (\<Sum>j\<leftarrow>[0..<ncols F]. entry F i j * alp ! j) - (\<Sum>j\<leftarrow>[0..<ncols G]. entry G i j * bet ! j)"

definition ls_value :: "matrix \<Rightarrow> matrix \<Rightarrow> real \<Rightarrow> vec \<Rightarrow> vec \<Rightarrow> real" where
  "ls_value F G lam alp bet =
     (\<Sum>i\<leftarrow>[0..<nrows F]. (residual F G alp bet i) ^ 2) + lam * (\<Sum>c\<leftarrow>alp @ bet. \<bar>c\<bar>)"

definition ls_gradient :: "matrix \<Rightarrow> matrix \<Rightarrow> real \<Rightarrow> vec \<Rightarrow> vec \<Rightarrow> vec" where
  "ls_gradient F G lam alp bet =
     map (\<lambda>j. 2 * (\<Sum>i\<leftarrow>[0..<nrows F]. fg_entry F G i j * residual F G alp bet i)
              + lam * sgn ((alp @ bet) ! j))
       [0..<ncols F + ncols G]"

definition ls_hessian_entry :: "matrix \<Rightarrow> matrix \<Rightarrow> nat \<Rightarrow> nat \<Rightarrow> real" where
  "ls_hessian_entry F G j k = 2 * (\<Sum>i\<leftarrow>[0..<nrows F]. fg_entry F G i j * fg_entry F G i k)"

definition population_variance :: "(nat \<Rightarrow> real) \<Rightarrow> nat \<Rightarrow> real" where
  "population_variance y n =
     (\<Sum>i\<leftarrow>[0..<n]. (y i - (\<Sum>k\<leftarrow>[0..<n]. y k) / real n) ^ 2) / real n"

section \<open>The Pearson coefficient\<close>

text \<open>
  The covariance of two vectors and their Pearson correlation coefficient, with the
  population standard deviations.
\<close>

definition cov :: "vec \<Rightarrow> vec \<Rightarrow> real" where
  "cov x y = mean (map2 (\<lambda>u v. (u - mean x) * (v - mean y)) x y)"

definition pearson :: "vec \<Rightarrow> vec \<Rightarrow> real" where
  "pearson x y = cov x y / (std x * std y)"

section \<open>Sample inputs\<close>

text \<open>The default values of the configuration fields.\<close>

definition default_config :: config where
  "default_config = \<lparr>opt_method = ''trust-constr'', maxiter = 1000, eps = 1 / 10 ^ 9,
     tol = 1 / 100, use_lstsq = True, delta = 1 / 100, lasso = 0\<rparr>"

text \<open>
  Sixteen samples with values in \<open>{-1, 1}\<close>. For \<open>sample_a\<close> the centred square is the
  zero column and the centred cube is the centred vector itself, so in the augmented
  matrix \<open>[1 | a | b | a^2 | a^3]\<close> the first three columns are orthogonal of norm 4 and
  the last two depend on them: every R factor has the diagonal \<open>4, 4, 4, 0, 0\<close> up to
  signs.
\<close>

definition sample_a :: vec where
  "sample_a = [1, -1, 1, -1, 1, -1, 1, -1, 1, -1, 1, -1, 1, -1, 1, -1]"

definition sample_b :: vec where
  "sample_b = [1, 1, -1, -1, 1, 1, -1, -1, 1, 1, -1, -1, 1, 1, -1, -1]"

definition sample_ext :: externals where
  "sample_ext = \<lparr>qr_r_diag = (\<lambda>m. Inr [4, 4, 4, 0, 0]),
     lstsq = (\<lambda>m v. Inl ValueError),
     minimize = (\<lambda>p. Inr (sp_x0 p))\<rparr>"

text \<open>
  A constant first vector of four samples: its kernel columns vanish, and the augmented
  matrix \<open>[1 | 0 | b | 0]\<close> with \<open>b = [1, -1, 1, -1]\<close> has the diagonal \<open>2, 0, 2, 0\<close>.
  The solver is taken to return the point \<open>[3, 5]\<close>.
\<close>

definition const_ext :: externals where
  "const_ext = \<lparr>qr_r_diag = (\<lambda>m. Inr [2, 0, 2, 0]),
     lstsq = (\<lambda>m v. Inl ValueError),
     minimize = (\<lambda>p. Inr [3, 5])\<rparr>"


text \<open>The default configuration without the epsilon of the standardisation.\<close>

definition tie_config :: config where
  "tie_config = default_config\<lparr>eps := 0\<rparr>"

text \<open>
  A least-squares solve for matrices whose columns after the first vanish: the projection
  on the first column, and zero for the other coefficients (the solution of least norm).
\<close>

definition first_column_lstsq :: "matrix \<Rightarrow> vec \<Rightarrow> error + vec" where
  "first_column_lstsq m v =
     (case cols m of
        [] \<Rightarrow> Inr []
      | c # cs \<Rightarrow> Inr ((dotp c v / dotp c c) # map (\<lambda>_. 0) cs))"

definition tie_ext :: externals where
  "tie_ext = \<lparr>qr_r_diag = (\<lambda>m. Inl ValueError),
     lstsq = first_column_lstsq,
     minimize = (\<lambda>p. Inr (sp_x0 p))\<rparr>"

text \<open>The state of an instance during its first call.\<close>

definition fresh_state :: "kb_result indicator_state" where
  "fresh_state = \<lparr>num_calls = 1, last_result = None\<rparr>"

text \<open>Externals whose least-squares solve returns the coefficients \<open>[-2, 1]\<close>.\<close>

definition strict_ext :: externals where
  "strict_ext = \<lparr>qr_r_diag = (\<lambda>m. Inl ValueError),
     lstsq = (\<lambda>m v. Inr [-2, 1]),
     minimize = (\<lambda>p. Inr (sp_x0 p))\<rparr>"

section \<open>Auxiliary facts\<close>

subsection \<open>Results and indices\<close>

lemma tl_filter_upt:
  "i \<in> set (tl (filter P [0..<k])) \<longleftrightarrow> i < k \<and> P i \<and> (\<exists>j<i. P j)"
proof (induction k)
  case 0
  show ?case by simp
next
  case (Suc k)
  show ?case
  proof (cases "filter P [0..<k] = []")
    case True
    then have none: "\<forall>j<k. \<not> P j"
      by (auto simp: filter_empty_conv)
    have "tl (filter P [0..<Suc k]) = []"
      using True by simp
    moreover have "\<not> (i < Suc k \<and> P i \<and> (\<exists>j<i. P j))"
      using none by auto
    ultimately show ?thesis by simp
  next
    case False
    then obtain j where j: "j < k" "P j"
      by (auto simp: filter_empty_conv)
    have "tl (filter P [0..<Suc k]) = tl (filter P [0..<k]) @ (if P k then [k] else [])"
      using False by simp
    then have "i \<in> set (tl (filter P [0..<Suc k])) \<longleftrightarrow>
        i \<in> set (tl (filter P [0..<k])) \<or> (i = k \<and> P k)"
      by auto
    also have "\<dots> \<longleftrightarrow> i < Suc k \<and> P i \<and> (\<exists>j<i. P j)"
      using Suc.IH j by (auto simp: less_Suc_eq)
    finally show ?thesis .
  qed
qed

lemma length_aug_indices:
  "length (fst (aug_indices dx dy)) = dx" "length (snd (aug_indices dx dy)) = dy"
  by (auto simp: aug_indices_def Let_def)

lemma take_idx_Inr:
  "take_idx v idxs = Inr w \<Longrightarrow> length w = length idxs \<and> (\<forall>i<length idxs. idxs ! i < length v \<and> w ! i = v ! (idxs ! i))"
  by (auto simp: take_idx_def list_all_length split: if_splits)

lemma bind_err_Inr:
  "bind_err m k = Inr y \<longleftrightarrow> (\<exists>x. m = Inr x \<and> k x = Inr y)"
  by (cases m) (auto simp: bind_err_def)

lemma ncols_kernel: "ncols (kernel v d) = d" "nrows (kernel v d) = length v"
  by (simp_all add: ncols_def kernel_def)

lemma length_scatter: "length (scatter base idxs vals) = length base"
  by (induction base idxs vals rule: scatter.induct) simp_all

lemma aug_indices_bound:
  "list_all (\<lambda>i. i < Suc (dx + dy)) (fst (aug_indices dx dy))"
  "list_all (\<lambda>i. i < Suc (dx + dy)) (snd (aug_indices dx dy))"
  by (auto simp: aug_indices_def Let_def list_all_iff)

lemma put_idx_same_length:
  "list_all (\<lambda>i. i < length base) idxs \<Longrightarrow> length vals = length idxs \<Longrightarrow>
   put_idx base idxs vals = Inr (scatter base idxs vals)"
  by (simp add: put_idx_def)

lemma augmented_Inr:
  assumes "nrows gm = nrows fm"
  shows "\<exists>m. augmented fm gm = Inr m"
proof -
  define dx where "dx = ncols fm"
  define dy where "dy = ncols gm"
  define fx where "fx = fst (aug_indices dx dy)"
  define gx where "gx = snd (aug_indices dx dy)"
  define o1 where "o1 = ones_matrix (nrows fm) (dx + dy + 1)"
  have lo: "length (cols o1) = Suc (dx + dy)" "nrows o1 = nrows fm"
    by (simp_all add: ones_matrix_def o1_def)
  have lf: "length (cols fm) = length fx" "length (cols gm) = length gx"
    by (simp_all add: fx_def gx_def length_aug_indices dx_def dy_def ncols_def)
  have bf: "list_all (\<lambda>i. i < length (cols o1)) fx"
    unfolding lo fx_def by (rule aug_indices_bound)
  have p1: "put_idx (cols o1) fx (cols fm) = Inr (scatter (cols o1) fx (cols fm))"
    using bf lf(1) by (rule put_idx_same_length)
  define m1 where "m1 = o1\<lparr>cols := scatter (cols o1) fx (cols fm)\<rparr>"
  have a1: "assign_cols o1 fx fm = Inr m1"
    unfolding assign_cols_def m1_def using p1 lo by (simp add: bind_err_def)
  have l1: "length (cols m1) = Suc (dx + dy)" "nrows m1 = nrows fm"
    by (simp_all add: m1_def length_scatter lo)
  have bg: "list_all (\<lambda>i. i < length (cols m1)) gx"
    unfolding l1 gx_def by (rule aug_indices_bound)
  have p2: "put_idx (cols m1) gx (cols gm) = Inr (scatter (cols m1) gx (cols gm))"
    using bg lf(2) by (rule put_idx_same_length)
  have a2: "assign_cols m1 gx gm = Inr (m1\<lparr>cols := scatter (cols m1) gx (cols gm)\<rparr>)"
    unfolding assign_cols_def using p2 l1 assms by (simp add: bind_err_def)
  show ?thesis
    unfolding augmented_def Let_def
    using a1 a2 by (simp add: bind_err_def dx_def dy_def fx_def gx_def o1_def)
qed

lemma aug31: "aug_indices 3 (Suc 0) = ([1, 3, 4], [2])"
  by (simp add: aug_indices_def Let_def upt_rec)

lemma sample_detector:
  "get_linearly_independent sample_ext default_config (kernel sample_a 3) (kernel sample_b 1)
     = Inr ([0, 1], [0])"
proof -
  have "nrows (kernel sample_b 1) = nrows (kernel sample_a 3)"
    by (simp add: ncols_kernel sample_a_def sample_b_def)
  then obtain m where m: "augmented (kernel sample_a 3) (kernel sample_b 1) = Inr m"
    using augmented_Inr by blast
  show ?thesis
    unfolding get_linearly_independent_def Let_def m
    by (simp add: ncols_kernel aug31 bind_err_def sample_ext_def take_idx_def
        independent_of_def default_config_def upt_rec)
qed

lemma independent_of_kept:
  assumes "\<forall>i<k. r ! i = diag_entry rd idxs i"
  shows "independent_of dlt k r = kept_columns dlt rd idxs k"
  unfolding independent_of_def kept_columns_def Let_def
proof (rule filter_cong [OF refl])
  fix i assume "i \<in> set [0..<k]"
  then have ik: "i < k" by simp
  have "i \<notin> set (tl (filter (\<lambda>i. r ! i \<le> dlt) [0..<k])) \<longleftrightarrow>
        dlt < r ! i \<or> (\<forall>j<i. dlt < r ! j)"
    using ik by (auto simp: tl_filter_upt not_le)
  also have "\<dots> \<longleftrightarrow> dlt < diag_entry rd idxs i \<or> (\<forall>j<i. dlt < diag_entry rd idxs j)"
    using assms ik by auto
  finally show "(i \<notin> set (tl (filter (\<lambda>i. r ! i \<le> dlt) [0..<k]))) =
      (dlt < diag_entry rd idxs i \<or> list_all (\<lambda>j. dlt < diag_entry rd idxs j) [0..<i])"
    by (auto simp: list_all_iff)
qed

lemma get_linearly_independent_Inr:
  assumes "get_linearly_independent ext cfg fm gm = Inr (fi, gi)"
  shows "\<exists>fg_bias rd. augmented fm gm = Inr fg_bias \<and> qr_r_diag ext fg_bias = Inr rd
      \<and> fi = kept_columns (delta cfg) rd (fst (aug_indices (ncols fm) (ncols gm))) (ncols fm)
      \<and> gi = kept_columns (delta cfg) rd (snd (aug_indices (ncols fm) (ncols gm))) (ncols gm)"
proof -
  let ?fx = "fst (aug_indices (ncols fm) (ncols gm))"
  let ?gx = "snd (aug_indices (ncols fm) (ncols gm))"
  from assms obtain fg_bias rd rf rg where
    a: "augmented fm gm = Inr fg_bias" and q: "qr_r_diag ext fg_bias = Inr rd"
    and rf: "take_idx (map abs rd) ?fx = Inr rf" and rg: "take_idx (map abs rd) ?gx = Inr rg"
    and fi: "fi = independent_of (delta cfg) (ncols fm) rf"
    and gi: "gi = independent_of (delta cfg) (ncols gm) rg"
    unfolding get_linearly_independent_def Let_def
    by (auto simp: bind_err_Inr)
  have ef: "\<forall>i<ncols fm. rf ! i = diag_entry rd ?fx i"
    using take_idx_Inr [OF rf] by (simp add: length_aug_indices diag_entry_def)
  have eg: "\<forall>i<ncols gm. rg ! i = diag_entry rd ?gx i"
    using take_idx_Inr [OF rg] by (simp add: length_aug_indices diag_entry_def)
  show ?thesis
    using a q fi gi independent_of_kept [OF ef] independent_of_kept [OF eg] by blast
qed

lemma kept_columns_0: "0 < k \<Longrightarrow> 0 \<in> set (kept_columns dlt rd idxs k)"
  by (simp add: kept_columns_def)

lemma aug21: "aug_indices 2 (Suc 0) = ([1, 3], [2])"
  by (simp add: aug_indices_def Let_def upt_rec)

lemma const_detector:
  "get_linearly_independent const_ext default_config (kernel [1, 1, 1, 1] 2) (kernel [1, -1, 1, -1] 1)
     = Inr ([0], [0])"
proof -
  have "nrows (kernel [1, -1, 1, -1] 1) = nrows (kernel [1, 1, 1, 1] 2)"
    by (simp add: ncols_kernel)
  then obtain m where m: "augmented (kernel [1, 1, 1, 1] 2) (kernel [1, -1, 1, -1] 1) = Inr m"
    using augmented_Inr by blast
  show ?thesis
    unfolding get_linearly_independent_def Let_def m
    by (simp add: ncols_kernel aug21 bind_err_def const_ext_def take_idx_def
        independent_of_def default_config_def upt_rec)
qed

subsection \<open>The Single-Kernel variant on samples\<close>

lemma SingleKernelHGR_compute_Inr:
  assumes "SingleKernelHGR_compute ext cfg degree st x y = Inr r"
  shows "\<exists>ra rb. kbhgr ext cfg st x y degree 1 (fst (warm_start st)) None = Inr ra
      \<and> kbhgr ext cfg st x y 1 degree None (snd (warm_start st)) = Inr rb
      \<and> correlation r = max (correlation ra) (correlation rb)
      \<and> 0 < degree
      \<and> (if correlation ra > correlation rb
          then alpha r = alpha ra \<and> beta ra \<noteq> [] \<and> beta r = hd (beta ra) # replicate (degree - 1) 0
          else beta r = beta rb \<and> alpha rb \<noteq> [] \<and> alpha r = hd (alpha rb) # replicate (degree - 1) 0)"
proof -
  obtain a0 b0 where w: "warm_start st = (a0, b0)" by (cases "warm_start st")
  from assms obtain ra rb p where
    ra: "kbhgr ext cfg st x y degree 1 a0 None = Inr ra" and
    rb: "kbhgr ext cfg st x y 1 degree None b0 = Inr rb" and
    p: "(if correlation ra > correlation rb then
           bind_err (get0 (beta ra)) (\<lambda>c.
           bind_err (set0 (replicate degree 0) c) (\<lambda>bet. Inr (alpha ra, bet)))
         else
           bind_err (get0 (alpha rb)) (\<lambda>c.
           bind_err (set0 (replicate degree 0) c) (\<lambda>alp. Inr (alp, beta rb)))) = Inr p" and
    r: "r = \<lparr>res_a = x, res_b = y, correlation = max (correlation ra) (correlation rb),
                num_call = num_calls st, alpha = fst p, beta = snd p\<rparr>"
    unfolding SingleKernelHGR_compute_def w Let_def
    by (auto simp: bind_err_Inr split: prod.splits)
  have g0: "get0 v = Inr c \<longleftrightarrow> v \<noteq> [] \<and> c = hd v" for v c
    by (cases v) (auto simp: get0_def)
  have s0: "set0 (replicate degree 0) c = Inr w \<longleftrightarrow> 0 < degree \<and> w = c # replicate (degree - 1) 0" for c w
    by (cases degree) (auto simp: set0_def)
  show ?thesis
  proof (cases "correlation ra > correlation rb")
    case True
    with p have "beta ra \<noteq> [] \<and> 0 < degree \<and> p = (alpha ra, hd (beta ra) # replicate (degree - 1) 0)"
      by (auto simp: bind_err_Inr g0 s0)
    then show ?thesis using ra rb r True w by auto
  next
    case False
    with p have "alpha rb \<noteq> [] \<and> 0 < degree \<and> p = (hd (alpha rb) # replicate (degree - 1) 0, beta rb)"
      by (auto simp: bind_err_Inr g0 s0)
    then show ?thesis using ra rb r False w by auto
  qed
qed

lemma std_pm: "std [- c, c] = \<bar>c\<bar>"
  by (simp add: std_def var_def mean_def power2_eq_square[symmetric])

lemma kernel_pm2: "kernel [- c, c] 2 = \<lparr>nrows = 2, cols = [[- c, c], [0, 0]]\<rparr>"
  by (simp add: kernel_def mean_def upt_rec)

lemma kernel_pm1: "kernel [- c, c] (Suc 0) = \<lparr>nrows = 2, cols = [[- c, c]]\<rparr>"
  by (simp add: kernel_def mean_def upt_rec)

lemma standardize_pm: "c \<noteq> 0 \<Longrightarrow> standardize [- c, c] 0 = Inr [- c / \<bar>c\<bar>, c / \<bar>c\<bar>]"
  by (simp add: standardize_def std_pm mean_def)

lemma tie_a:
  "kbhgr tie_ext tie_config fresh_state [-2, 2] [-1, 1] 2 1 None None
     = Inr \<lparr>res_a = [-2, 2], res_b = [-1, 1], correlation = 1, num_call = 1,
            alpha = [1 / 2, 0], beta = [1]\<rparr>"
  using standardize_pm [of 1] standardize_pm [of 2] kernel_pm2 [of 2] kernel_pm1 [of 1]
  by (simp add: kbhgr_def kbhgr_projections_def Let_def tie_config_def default_config_def
      tie_ext_def first_column_lstsq_def bind_err_def matvec_def ncols_def row_def dotp_def
      vdot_def fresh_state_def upt_rec)

lemma tie_b:
  "kbhgr tie_ext tie_config fresh_state [-2, 2] [-1, 1] 1 2 None None
     = Inr \<lparr>res_a = [-2, 2], res_b = [-1, 1], correlation = 1, num_call = 1,
            alpha = [1], beta = [1, 0]\<rparr>"
  using standardize_pm [of 1] standardize_pm [of 2] kernel_pm2 [of 1] kernel_pm1 [of 2]
  by (simp add: kbhgr_def kbhgr_projections_def Let_def tie_config_def default_config_def
      tie_ext_def first_column_lstsq_def bind_err_def matvec_def ncols_def row_def dotp_def
      vdot_def fresh_state_def upt_rec)

lemma tie_single:
  "SingleKernelHGR_compute tie_ext tie_config 2 fresh_state [-2, 2] [-1, 1]
     = Inr \<lparr>res_a = [-2, 2], res_b = [-1, 1], correlation = 1, num_call = 1,
            alpha = [1, 0], beta = [1, 0]\<rparr>"
proof -
  have w: "warm_start fresh_state = (None, None)"
    by (simp add: warm_start_def fresh_state_def)
  show ?thesis
    unfolding SingleKernelHGR_compute_def w prod.case Let_def tie_a tie_b
    by (simp add: bind_err_def get0_def set0_def fresh_state_def numeral_2_eq_2)
qed

lemma sqrt9: "sqrt 9 = 3"
proof -
  have "sqrt 9 = sqrt (3 ^ 2)" by simp
  then show ?thesis by (simp only: real_sqrt_abs)
qed

lemma sqrt36: "sqrt 36 = 6"
proof -
  have "sqrt 36 = sqrt (6 ^ 2)" by simp
  then show ?thesis by (simp only: real_sqrt_abs)
qed

lemma std_s1: "std [1, 1, -1, -1] = 1" "mean [1, 1, -1, -1] = 0"
  by (simp_all add: std_def var_def mean_def)

lemma std_s2: "std [5, -1, -1, -3] = 3" "mean [5, -1, -1, -3] = 0"
  by (simp_all add: std_def var_def mean_def sqrt9)

lemma std_s3: "std [-2, -2, 2, 2] = 2" "mean [-2, -2, 2, 2] = 0"
  by (simp_all add: std_def var_def mean_def)

lemma std_s4: "std [6, -6, -6, 6] = 6" "mean [6, -6, -6, 6] = 0"
  by (simp_all add: std_def var_def mean_def sqrt36)

lemma kernel_s1: "kernel [1, 1, -1, -1] 2 = \<lparr>nrows = 4, cols = [[1, 1, -1, -1], [0, 0, 0, 0]]\<rparr>"
  by (simp add: kernel_def mean_def upt_rec)

lemma kernel_s2: "kernel [5, -1, -1, -3] 2 = \<lparr>nrows = 4, cols = [[5, -1, -1, -3], [16, -8, -8, 0]]\<rparr>"
  by (simp add: kernel_def mean_def upt_rec)

lemma strict_a:
  "kbhgr strict_ext tie_config fresh_state [1, 1, -1, -1] [5, -1, -1, -3] 2 1 None None
     = Inr \<lparr>res_a = [1, 1, -1, -1], res_b = [5, -1, -1, -3], correlation = 2 / 3, num_call = 1,
            alpha = [-2, 1], beta = [1]\<rparr>"
  by (simp add: kbhgr_def kbhgr_projections_def Let_def tie_config_def default_config_def
      strict_ext_def bind_err_def matvec_def ncols_def row_def dotp_def kernel_s1 std_s1 std_s2 std_s3
      standardize_def vdot_def fresh_state_def upt_rec)

lemma strict_b:
  "kbhgr strict_ext tie_config fresh_state [1, 1, -1, -1] [5, -1, -1, -3] 1 2 None None
     = Inr \<lparr>res_a = [1, 1, -1, -1], res_b = [5, -1, -1, -3], correlation = 0, num_call = 1,
            alpha = [1], beta = [-2, 1]\<rparr>"
  by (simp add: kbhgr_def kbhgr_projections_def Let_def tie_config_def default_config_def
      strict_ext_def bind_err_def matvec_def ncols_def row_def dotp_def kernel_s2 std_s1 std_s2 std_s4
      standardize_def vdot_def fresh_state_def upt_rec)

lemma warm_start_fresh: "warm_start fresh_state = (None, None)"
  by (simp add: warm_start_def fresh_state_def)

lemma strict_single:
  "SingleKernelHGR_compute strict_ext tie_config 2 fresh_state [1, 1, -1, -1] [5, -1, -1, -3]
     = Inr \<lparr>res_a = [1, 1, -1, -1], res_b = [5, -1, -1, -3], correlation = 2 / 3, num_call = 1,
            alpha = [-2, 1], beta = [1, 0]\<rparr>"
  unfolding SingleKernelHGR_compute_def warm_start_fresh prod.case Let_def strict_a strict_b
  by (simp add: bind_err_def get0_def set0_def fresh_state_def numeral_2_eq_2)

subsection \<open>Scattering and the higher-order problem\<close>

lemma scatter_nth_notin:
  "i \<notin> set idxs \<Longrightarrow> scatter base idxs vals ! i = base ! i"
  by (induction base idxs vals rule: scatter.induct) auto

lemma scatter_nth_in:
  "distinct idxs \<Longrightarrow> length vals = length idxs \<Longrightarrow> list_all (\<lambda>i. i < length base) idxs \<Longrightarrow>
   k < length idxs \<Longrightarrow> scatter base idxs vals ! (idxs ! k) = vals ! k"
proof (induction base idxs vals arbitrary: k rule: scatter.induct)
  case (1 base i idxs v vals)
  show ?case
  proof (cases k)
    case 0
    then show ?thesis
      using 1 by (simp add: scatter_nth_notin)
  next
    case (Suc j)
    then show ?thesis
      using 1 by simp
  qed
qed simp_all

lemma put_idx_Inr_length: "put_idx base idxs vals = Inr w \<Longrightarrow> length w = length base"
  by (auto simp: put_idx_def length_scatter split: if_splits)

lemma put_idx_Inr_notin:
  "put_idx base idxs vals = Inr w \<Longrightarrow> i \<notin> set idxs \<Longrightarrow> w ! i = base ! i"
  by (auto simp: put_idx_def scatter_nth_notin split: if_splits)

lemma put_idx_Inr_in:
  "put_idx base idxs vals = Inr w \<Longrightarrow> distinct idxs \<Longrightarrow> length vals = length idxs \<Longrightarrow>
   k < length idxs \<Longrightarrow> w ! (idxs ! k) = vals ! k"
  by (auto simp: put_idx_def scatter_nth_in split: if_splits)

lemma kept_columns_distinct: "distinct (kept_columns dlt rd idxs k)"
  by (simp add: kept_columns_def)

lemma kept_columns_bound: "i \<in> set (kept_columns dlt rd idxs k) \<Longrightarrow> i < k"
  by (simp add: kept_columns_def)

lemma higher_order_problem_Inr:
  assumes "higher_order_problem ext cfg fm gm a0 b0 = Inr ((fi, gi), p)"
  shows "get_linearly_independent ext cfg fm gm = Inr (fi, gi)"
  using assms unfolding higher_order_problem_def
  by (auto simp: bind_err_Inr split: prod.splits)

lemma higher_order_coefficients_Inr:
  assumes "higher_order_coefficients ext cfg fm gm a0 b0 = Inr (alp, bet)"
  shows "\<exists>fi gi p x. higher_order_problem ext cfg fm gm a0 b0 = Inr ((fi, gi), p)
      \<and> minimize ext p = Inr x
      \<and> put_idx (replicate (ncols fm) 0) fi (take (length fi) x) = Inr alp
      \<and> put_idx (replicate (ncols gm) 0) gi (drop (length fi) x) = Inr bet"
  using assms unfolding higher_order_coefficients_def Let_def
  by (auto simp: bind_err_Inr split: prod.splits)

lemma var_nonneg: "0 \<le> var v"
  unfolding var_def mean_def
  by (intro divide_nonneg_nonneg sum_list_nonneg) auto

lemma take_idx_total: "list_all (\<lambda>i. i < length v) idxs \<Longrightarrow> take_idx v idxs = Inr (map (\<lambda>i. v ! i) idxs)"
  by (simp add: take_idx_def)

lemma select_cols_kept:
  "select_cols m (kept_columns dlt rd idxs (ncols m))
     = Inr \<lparr>nrows = nrows m, cols = map (\<lambda>i. cols m ! i) (kept_columns dlt rd idxs (ncols m))\<rparr>"
proof -
  have "list_all (\<lambda>i. i < length (cols m)) (kept_columns dlt rd idxs (ncols m))"
    by (auto simp: list_all_iff ncols_def dest: kept_columns_bound)
  then show ?thesis
    by (simp add: select_cols_def take_idx_total bind_err_def)
qed

lemma matmul_gram_Inr:
  "\<exists>h. matmul (smult 2 (transpose_m m)) m = Inr h"
  by (simp add: matmul_def ncols_def smult_def transpose_m_def)

lemma initial_guess_None:
  assumes "0 < nrows m" "0 < e"
  shows "\<exists>v. initial_guess e m None idxs = Inr v"
proof -
  have "0 < var (map (\<lambda>i. sum_list (row m i)) [0..<nrows m]) + e"
    using var_nonneg [of "map (\<lambda>i. sum_list (row m i)) [0..<nrows m]"] assms(2) by linarith
  then show ?thesis
    using assms(1) by (simp add: initial_guess_def Let_def)
qed

lemma higher_order_problem_total:
  assumes g: "get_linearly_independent ext cfg fm gm = Inr (fi, gi)"
    and n: "nrows gm = nrows fm" "0 < nrows fm" and e: "0 < eps cfg"
  shows "\<exists>p. higher_order_problem ext cfg fm gm None None = Inr ((fi, gi), p)"
proof -
  from get_linearly_independent_Inr [OF g] obtain rd where
    fi: "fi = kept_columns (delta cfg) rd (fst (aug_indices (ncols fm) (ncols gm))) (ncols fm)" and
    gi: "gi = kept_columns (delta cfg) rd (snd (aug_indices (ncols fm) (ncols gm))) (ncols gm)"
    by blast
  define F where "F = \<lparr>nrows = nrows fm, cols = map (\<lambda>i. cols fm ! i) fi\<rparr>"
  define G where "G = \<lparr>nrows = nrows gm, cols = map (\<lambda>i. cols gm ! i) gi\<rparr>"
  have sF: "select_cols fm fi = Inr F" and sG: "select_cols gm gi = Inr G"
    unfolding fi gi F_def G_def by (rule select_cols_kept)+
  define fg where "fg = \<lparr>nrows = nrows F, cols = cols F @ cols (neg_m G)\<rparr>"
  have c: "concat_cols F (neg_m G) = Inr fg"
    using n by (simp add: concat_cols_def fg_def F_def G_def neg_m_def)
  obtain h where h: "matmul (smult 2 (transpose_m fg)) fg = Inr h"
    using matmul_gram_Inr by blast
  obtain gg where gg: "matmul (smult 2 (transpose_m G)) G = Inr gg"
    using matmul_gram_Inr by blast
  have nF: "0 < nrows F" "0 < nrows G"
    using n by (simp_all add: F_def G_def)
  obtain ch where ch: "constraint_hess G (ncols F) (nrows F) = Inr ch"
    using gg nF by (simp add: constraint_hess_def bind_err_def)
  obtain a1 where a1: "initial_guess (eps cfg) F None fi = Inr a1"
    using initial_guess_None [OF nF(1) e] by blast
  obtain b1 where b1: "initial_guess (eps cfg) G None gi = Inr b1"
    using initial_guess_None [OF nF(2) e] by blast
  show ?thesis
    unfolding higher_order_problem_def
    by (simp add: g sF sG c h ch a1 b1 bind_err_def)
qed

lemma const_coefficients:
  "higher_order_coefficients const_ext default_config (kernel [1, 1, 1, 1] 2)
     (kernel [1, -1, 1, -1] 1) None None = Inr ([3, 0], [5])"
proof -
  have "\<exists>p. higher_order_problem const_ext default_config (kernel [1, 1, 1, 1] 2)
     (kernel [1, -1, 1, -1] 1) None None = Inr (([0], [0]), p)"
    by (rule higher_order_problem_total [OF const_detector])
       (simp_all add: ncols_kernel default_config_def)
  then obtain p where p: "higher_order_problem const_ext default_config (kernel [1, 1, 1, 1] 2)
     (kernel [1, -1, 1, -1] 1) None None = Inr (([0], [0]), p)"
    by blast
  have m: "minimize const_ext p = Inr [3, 5]"
    by (simp add: const_ext_def)
  show ?thesis
    unfolding higher_order_coefficients_def p
    by (simp add: bind_err_def m ncols_kernel put_idx_def numeral_2_eq_2)
qed

subsection \<open>What a returned correlation result is made of\<close>

lemma matvec_Inr:
  "matvec m v = Inr w \<longleftrightarrow> length v = ncols m \<and> w = map (\<lambda>i. dotp (row m i) v) [0..<nrows m]"
  by (auto simp: matvec_def)

lemma higher_order_coefficients_length:
  assumes "higher_order_coefficients ext cfg fm gm a0 b0 = Inr (alp, bet)"
  shows "length alp = ncols fm \<and> length bet = ncols gm"
  using higher_order_coefficients_Inr [OF assms]
  by (auto dest: put_idx_Inr_length)

lemma kbhgr_projections_Inr:
  assumes "kbhgr_projections ext cfg x y da db a0 b0 = Inr (alp, bet, fa, gb)"
  shows "length alp = da \<and> length bet = db
     \<and> (\<exists>u v. standardize u (eps cfg) = Inr fa \<and> standardize v (eps cfg) = Inr gb)"
proof -
  consider (both) "da = 1 \<and> db = 1"
    | (la) "\<not> (da = 1 \<and> db = 1)" "da = 1 \<and> use_lstsq cfg"
    | (lb) "\<not> (da = 1 \<and> db = 1)" "\<not> (da = 1 \<and> use_lstsq cfg)" "db = 1 \<and> use_lstsq cfg"
    | (ho) "\<not> (da = 1 \<and> db = 1)" "\<not> (da = 1 \<and> use_lstsq cfg)" "\<not> (db = 1 \<and> use_lstsq cfg)"
    by blast
  then show ?thesis
  proof cases
    case both
    with assms show ?thesis
      unfolding kbhgr_projections_def Let_def
      by (auto simp: bind_err_Inr)
  next
    case la
    with assms show ?thesis
      unfolding kbhgr_projections_def Let_def
      by (auto simp: bind_err_Inr matvec_Inr ncols_kernel)
  next
    case lb
    with assms show ?thesis
      unfolding kbhgr_projections_def Let_def
      by (auto simp: bind_err_Inr matvec_Inr ncols_kernel)
  next
    case ho
    with assms obtain falp gbet where
      h: "higher_order_coefficients ext cfg (kernel x da) (kernel y db) a0 b0 = Inr (alp, bet)"
      and "standardize falp (eps cfg) = Inr fa" "standardize gbet (eps cfg) = Inr gb"
      unfolding kbhgr_projections_def Let_def
      by (auto simp: bind_err_Inr split: prod.splits)
    then show ?thesis
      using higher_order_coefficients_length [OF h] by (auto simp: ncols_kernel)
  qed
qed

lemma kbhgr_Inr:
  assumes "kbhgr ext cfg st x y da db a0 b0 = Inr r"
  shows "\<exists>fa gb. kbhgr_projections ext cfg x y da db a0 b0 = Inr (alpha r, beta r, fa, gb)
     \<and> length fa = length gb \<and> fa \<noteq> []
     \<and> correlation r = \<bar>dotp fa gb / real (length fa)\<bar>"
  using assms unfolding kbhgr_def
  by (auto simp: bind_err_Inr vdot_def split: prod.splits if_splits)

lemma kbhgr_length:
  assumes "kbhgr ext cfg st x y da db a0 b0 = Inr r"
  shows "length (alpha r) = da \<and> length (beta r) = db"
  using kbhgr_Inr [OF assms] kbhgr_projections_Inr by blast

lemma DoubleKernelHGR_compute_length:
  assumes "DoubleKernelHGR_compute ext cfg da db st x y = Inr r"
  shows "length (alpha r) = da \<and> length (beta r) = db"
  using assms unfolding DoubleKernelHGR_compute_def
  by (auto split: prod.splits dest: kbhgr_length)

lemma SingleKernelHGR_compute_length:
  assumes "SingleKernelHGR_compute ext cfg degree st x y = Inr r"
  shows "length (alpha r) = degree \<and> length (beta r) = degree"
proof -
  from SingleKernelHGR_compute_Inr [OF assms] obtain ra rb where
    ra: "kbhgr ext cfg st x y degree 1 (fst (warm_start st)) None = Inr ra" and
    rb: "kbhgr ext cfg st x y 1 degree None (snd (warm_start st)) = Inr rb" and
    d: "0 < degree" and
    c: "if correlation ra > correlation rb
          then alpha r = alpha ra \<and> beta ra \<noteq> [] \<and> beta r = hd (beta ra) # replicate (degree - 1) 0
          else beta r = beta rb \<and> alpha rb \<noteq> [] \<and> alpha r = hd (alpha rb) # replicate (degree - 1) 0"
    by blast
  show ?thesis
    using kbhgr_length [OF ra] kbhgr_length [OF rb] c d by (auto split: if_splits)
qed

lemma kb_f_Some:
  "last_result st = Some r \<Longrightarrow> length (alpha r) = da \<Longrightarrow>
   copula_f (kb_f da) st x = Inr (map (\<lambda>i. dotp (row (kernel x da) i) (alpha r)) [0..<length x])"
  by (simp add: copula_f_def kb_f_def matvec_def ncols_kernel)

lemma kb_g_Some:
  "last_result st = Some r \<Longrightarrow> length (beta r) = db \<Longrightarrow>
   copula_g (kb_g db) st y = Inr (map (\<lambda>i. dotp (row (kernel y db) i) (beta r)) [0..<length y])"
  by (simp add: copula_g_def kb_g_def matvec_def ncols_kernel)

lemma kernel_35: "kernel [3, 5] 2 = \<lparr>nrows = 2, cols = [[-1, 1], [-8, 8]]\<rparr>"
  by (simp add: kernel_def mean_def upt_rec)

subsection \<open>Standardised vectors and their products\<close>

lemma sum_list_map_divide:
  "sum_list (map (\<lambda>p. h p / c) zs) = sum_list (map h zs) / (c::real)"
  by (induction zs) (simp_all add: add_divide_distrib)

lemma dotp_map_map:
  "dotp (map f x) (map g y) = sum_list (map2 (\<lambda>u v. f u * g v) x y)"
  by (simp add: dotp_def zip_map_map case_prod_unfold comp_def)

lemma dotp_standardized:
  "dotp (map (\<lambda>u. (u - mx) / a) x) (map (\<lambda>v. (v - my) / b) y)
     = sum_list (map2 (\<lambda>u v. (u - mx) * (v - my)) x y) / (a * b)"
proof -
  have "dotp (map (\<lambda>u. (u - mx) / a) x) (map (\<lambda>v. (v - my) / b) y)
      = sum_list (map (\<lambda>p. ((fst p - mx) * (snd p - my)) / (a * b)) (zip x y))"
    by (simp add: dotp_map_map case_prod_unfold)
  also have "\<dots> = sum_list (map (\<lambda>p. (fst p - mx) * (snd p - my)) (zip x y)) / (a * b)"
    by (rule sum_list_map_divide)
  finally show ?thesis
    by (simp add: case_prod_unfold)
qed

lemma standardize_Inr:
  "v = [] \<or> std v + e \<noteq> 0 \<Longrightarrow>
   standardize v e = Inr (map (\<lambda>x. (x - mean v) / (std v + e)) v)"
  by (auto simp: standardize_def)

lemma kbhgr_degree_one_value:
  assumes l: "length x = length y" and n: "x \<noteq> []"
    and sx: "std x + eps cfg \<noteq> 0" and sy: "std y + eps cfg \<noteq> 0"
  shows "kbhgr ext cfg st x y 1 1 a0 b0
     = Inr \<lparr>res_a = x, res_b = y,
            correlation = \<bar>cov x y / ((std x + eps cfg) * (std y + eps cfg))\<bar>,
            num_call = num_calls st, alpha = [1], beta = [1]\<rparr>"
proof -
  let ?fa = "map (\<lambda>u. (u - mean x) / (std x + eps cfg)) x"
  let ?gb = "map (\<lambda>v. (v - mean y) / (std y + eps cfg)) y"
  have p: "kbhgr_projections ext cfg x y 1 1 a0 b0 = Inr ([1], [1], ?fa, ?gb)"
    using sx sy by (simp add: kbhgr_projections_def standardize_Inr bind_err_def)
  have lz: "length (zip x y) = length x"
    using l by simp
  have "dotp ?fa ?gb / real (length x)
      = cov x y / ((std x + eps cfg) * (std y + eps cfg))"
    unfolding dotp_standardized cov_def mean_def [of "map2 _ x y"]
    using l by simp
  then show ?thesis
    unfolding kbhgr_def p using l n by (simp add: bind_err_def vdot_def)
qed

lemma cov_s12: "cov [1, 1, -1, -1] [5, -1, -1, -3] = 2"
  by (simp add: cov_def std_s1 std_s2) (simp add: mean_def)











subsection \<open>The objective, its derivatives and the constraint, entry by entry\<close>

lemma map2_nth_upt:
  "length xs = length ys \<Longrightarrow> map2 h xs ys = map (\<lambda>j. h (xs ! j) (ys ! j)) [0..<length xs]"
  by (rule nth_equalityI) simp_all

lemma dotp_nth:
  "length xs = length ys \<Longrightarrow> dotp xs ys = (\<Sum>j\<leftarrow>[0..<length xs]. xs ! j * ys ! j)"
  by (simp add: dotp_def map2_nth_upt)

lemma sum_list_cong_upt:
  "(\<And>i. i < n \<Longrightarrow> h i = k i) \<Longrightarrow> (\<Sum>i\<leftarrow>[0..<n]. h i) = (\<Sum>i\<leftarrow>[0..<n]. (k i :: real))"
  by (rule arg_cong [where f = sum_list]) simp

lemma dotp_row:
  "length v = ncols m \<Longrightarrow> dotp (row m i) v = (\<Sum>j\<leftarrow>[0..<ncols m]. entry m i j * v ! j)"
proof -
  assume l: "length v = ncols m"
  have "dotp (row m i) v = (\<Sum>j\<leftarrow>[0..<length (row m i)]. row m i ! j * v ! j)"
    by (rule dotp_nth) (simp add: row_def l ncols_def)
  also have "\<dots> = (\<Sum>j\<leftarrow>[0..<ncols m]. entry m i j * v ! j)"
    unfolding row_def ncols_def entry_def length_map
    by (rule sum_list_cong_upt) simp
  finally show ?thesis .
qed

lemma matvec_entries:
  "length v = ncols m \<Longrightarrow>
   matvec m v = Inr (map (\<lambda>i. \<Sum>j\<leftarrow>[0..<ncols m]. entry m i j * v ! j) [0..<nrows m])"
  by (simp add: matvec_def dotp_row)

lemma objective_diff:
  assumes "nrows G = nrows F" "length alp = ncols F" "length bet = ncols G"
  shows "bind_err (matvec F (take (ncols F) (alp @ bet))) (\<lambda>fa.
         bind_err (matvec G (drop (ncols F) (alp @ bet))) (\<lambda>gb.
         bind_err (broadcast2 (-) fa gb) k))
     = k (map (residual F G alp bet) [0..<nrows F])"
proof -
  have "map2 (-) (map (\<lambda>i. \<Sum>j\<leftarrow>[0..<ncols F]. entry F i j * alp ! j) [0..<nrows F])
         (map (\<lambda>i. \<Sum>j\<leftarrow>[0..<ncols G]. entry G i j * bet ! j) [0..<nrows F])
      = map (residual F G alp bet) [0..<nrows F]"
    by (simp add: map2_nth_upt residual_def cong: map_cong)
  then show ?thesis
    using assms by (simp add: matvec_entries bind_err_def broadcast2_def)
qed

lemma dotp_map_upt:
  assumes "length v = n"
  shows "dotp (map h [0..<n]) v = (\<Sum>i\<leftarrow>[0..<n]. h i * v ! i)"
proof -
  have "dotp (map h [0..<n]) v
      = (\<Sum>i\<leftarrow>[0..<length (map h [0..<n])]. map h [0..<n] ! i * v ! i)"
    by (rule dotp_nth) (simp add: assms)
  also have "\<dots> = (\<Sum>i\<leftarrow>[0..<n]. h i * v ! i)"
    unfolding length_map length_upt diff_zero
    by (rule sum_list_cong_upt) simp
  finally show ?thesis .
qed

lemma sum_list_map_sq:
  "dotp (map h [0..<n]) (map h [0..<n]) = (\<Sum>i\<leftarrow>[0..<n]. (h i) ^ 2)"
  by (simp add: dotp_def zip_map_map comp_def zip_same_conv_map power2_eq_square)

lemma concat_cols_Inr:
  "concat_cols F (neg_m G) = Inr fg \<Longrightarrow> nrows G = nrows F \<and> fg = fgm F G"
  by (auto simp: concat_cols_def fgm_def neg_m_def split: if_splits)

lemma fgm_dims: "nrows (fgm F G) = nrows F" "ncols (fgm F G) = ncols F + ncols G"
  by (simp_all add: fgm_def ncols_def neg_m_def)

lemma wf_matrix_nth: "wf_matrix m \<Longrightarrow> j < ncols m \<Longrightarrow> length (cols m ! j) = nrows m"
  by (simp add: wf_matrix_def list_all_length ncols_def)

lemma entry_fgm:
  assumes "wf_matrix G" "nrows G = nrows F" "i < nrows F" "j < ncols F + ncols G"
  shows "entry (fgm F G) i j = fg_entry F G i j"
proof (cases "j < ncols F")
  case True
  then show ?thesis
    by (simp add: entry_def fgm_def fg_entry_def nth_append ncols_def)
next
  case False
  then have j: "j - ncols F < ncols G"
    using assms(4) by simp
  have "length (cols G ! (j - ncols F)) = nrows G"
    using assms(1) j by (rule wf_matrix_nth)
  then show ?thesis
    using False j assms(2,3)
    by (simp add: entry_def fgm_def fg_entry_def nth_append ncols_def neg_m_def)
qed

lemma row_scaled_transpose:
  "j < ncols m \<Longrightarrow>
   row (smult c (transpose_m m)) j = map (\<lambda>i. c * entry m i j) [0..<nrows m]"
  by (simp add: row_def smult_def transpose_m_def entry_def ncols_def comp_def)

lemma dims_scaled_transpose:
  "ncols (smult c (transpose_m m)) = nrows m" "nrows (smult c (transpose_m m)) = ncols m"
  by (simp_all add: smult_def transpose_m_def ncols_def)

lemma dotp_row_scaled_transpose:
  assumes "j < ncols m" "length v = nrows m"
  shows "dotp (row (smult 2 (transpose_m m)) j) v
       = 2 * (\<Sum>i\<leftarrow>[0..<nrows m]. entry m i j * v ! i)"
proof -
  have "dotp (row (smult 2 (transpose_m m)) j) v
      = (\<Sum>i\<leftarrow>[0..<nrows m]. (2 * entry m i j) * v ! i)"
    unfolding row_scaled_transpose [OF assms(1)]
    by (rule dotp_map_upt [OF assms(2)])
  also have "\<dots> = 2 * (\<Sum>i\<leftarrow>[0..<nrows m]. entry m i j * v ! i)"
    by (simp add: sum_list_const_mult mult.assoc)
  finally show ?thesis .
qed

lemma bind_err_simps: "bind_err (Inr x) k = k x" "bind_err (Inl e) k = Inl e"
  by (simp_all add: bind_err_def)

lemma broadcast2_add_penalty:
  assumes "length inp = d"
  shows "broadcast2 (+) (map h [0..<d]) (map (\<lambda>x. lam * x) (map sgn inp))
       = Inr (map (\<lambda>j. h j + lam * sgn (inp ! j)) [0..<d])"
proof -
  have "map2 (+) (map h [0..<d]) (map (\<lambda>x. lam * x) (map sgn inp))
      = map (\<lambda>j. h j + lam * sgn (inp ! j)) [0..<d]"
    using assms by (intro nth_equalityI) simp_all
  then show ?thesis
    using assms by (simp add: broadcast2_def)
qed

lemma objective_formula:
  assumes wf: "wf_matrix G" and n: "nrows G = nrows F"
    and la: "length alp = ncols F" and lb: "length bet = ncols G"
  shows "objective F G (fgm F G) lam (alp @ bet)
       = Inr (ls_value F G lam alp bet, ls_gradient F G lam alp bet)"
proof -
  let ?n = "nrows F"
  let ?d = "ncols F + ncols G"
  let ?diff = "map (residual F G alp bet) [0..<?n]"
  let ?S = "smult 2 (transpose_m (fgm F G))"
  have v: "vdot ?diff ?diff = Inr (\<Sum>i\<leftarrow>[0..<?n]. (residual F G alp bet i) ^ 2)"
    by (simp add: vdot_def sum_list_map_sq)
  have g: "dotp (row ?S j) ?diff
         = 2 * (\<Sum>i\<leftarrow>[0..<?n]. fg_entry F G i j * residual F G alp bet i)"
    if "j < ?d" for j
  proof -
    have "dotp (row ?S j) ?diff
        = 2 * (\<Sum>i\<leftarrow>[0..<nrows (fgm F G)]. entry (fgm F G) i j * ?diff ! i)"
      by (rule dotp_row_scaled_transpose) (simp_all add: fgm_dims that)
    also have "(\<Sum>i\<leftarrow>[0..<nrows (fgm F G)]. entry (fgm F G) i j * ?diff ! i)
        = (\<Sum>i\<leftarrow>[0..<?n]. fg_entry F G i j * residual F G alp bet i)"
      unfolding fgm_dims
      by (rule sum_list_cong_upt) (simp add: entry_fgm [OF wf n _ that])
    finally show ?thesis .
  qed
  have m: "matvec ?S ?diff
         = Inr (map (\<lambda>j. 2 * (\<Sum>i\<leftarrow>[0..<?n]. fg_entry F G i j * residual F G alp bet i)) [0..<?d])"
    by (simp add: matvec_def dims_scaled_transpose fgm_dims g)
  have b: "broadcast2 (+)
        (map (\<lambda>j. 2 * (\<Sum>i\<leftarrow>[0..<?n]. fg_entry F G i j * residual F G alp bet i)) [0..<?d])
        (map (\<lambda>x. lam * x) (map sgn (alp @ bet)))
      = Inr (ls_gradient F G lam alp bet)"
    unfolding ls_gradient_def
    by (rule broadcast2_add_penalty) (simp add: la lb)
  have "objective F G (fgm F G) lam (alp @ bet)
      = bind_err (vdot ?diff ?diff) (\<lambda>obj_func.
        bind_err (matvec ?S ?diff) (\<lambda>obj_grad.
        bind_err (broadcast2 (+) obj_grad (map (\<lambda>x. lam * x) (map sgn (alp @ bet)))) (\<lambda>grad.
        Inr (obj_func + lam * sum_list (map abs (alp @ bet)), grad))))"
    unfolding objective_def Let_def by (rule objective_diff [OF n la lb])
  also have "\<dots> = Inr (ls_value F G lam alp bet, ls_gradient F G lam alp bet)"
    by (simp only: v m b bind_err_simps ls_value_def)
  finally show ?thesis .
qed

lemma hessian_formula:
  assumes wfF: "wf_matrix F" and wfG: "wf_matrix G" and n: "nrows G = nrows F"
  shows "\<exists>H. matmul (smult 2 (transpose_m (fgm F G))) (fgm F G) = Inr H
      \<and> nrows H = ncols F + ncols G \<and> ncols H = ncols F + ncols G
      \<and> (\<forall>j<ncols F + ncols G. \<forall>k<ncols F + ncols G. entry H j k = ls_hessian_entry F G j k)"
proof -
  let ?fg = "fgm F G"
  let ?S = "smult 2 (transpose_m ?fg)"
  let ?d = "ncols F + ncols G"
  let ?H = "\<lparr>nrows = nrows ?S,
            cols = map (\<lambda>c. map (\<lambda>i. dotp (row ?S i) c) [0..<nrows ?S]) (cols ?fg)\<rparr>"
  have mm: "matmul ?S ?fg = Inr ?H"
    by (simp add: matmul_def dims_scaled_transpose)
  have wffg: "wf_matrix ?fg"
    using wfF wfG n by (auto simp: wf_matrix_def fgm_def neg_m_def list_all_iff)
  have e: "entry ?H j k = ls_hessian_entry F G j k" if j: "j < ?d" and k: "k < ?d" for j k
  proof -
    have lk: "length (cols ?fg ! k) = nrows ?fg"
      using wffg by (rule wf_matrix_nth) (simp add: fgm_dims k)
    have "entry ?H j k = dotp (row ?S j) (cols ?fg ! k)"
      using j k by (simp add: entry_def dims_scaled_transpose fgm_dims ncols_def [symmetric])
    also have "\<dots> = 2 * (\<Sum>i\<leftarrow>[0..<nrows ?fg]. entry ?fg i j * (cols ?fg ! k) ! i)"
      by (rule dotp_row_scaled_transpose) (simp_all add: fgm_dims j lk)
    also have "(\<Sum>i\<leftarrow>[0..<nrows ?fg]. entry ?fg i j * (cols ?fg ! k) ! i)
        = (\<Sum>i\<leftarrow>[0..<nrows F]. fg_entry F G i j * fg_entry F G i k)"
      unfolding fgm_dims
    proof (rule sum_list_cong_upt)
      fix i assume i: "i < nrows F"
      have "(cols ?fg ! k) ! i = entry ?fg i k"
        by (simp add: entry_def)
      then show "entry ?fg i j * (cols ?fg ! k) ! i = fg_entry F G i j * fg_entry F G i k"
        by (simp add: entry_fgm [OF wfG n i j] entry_fgm [OF wfG n i k])
    qed
    finally show ?thesis
      by (simp add: ls_hessian_entry_def)
  qed
  have "nrows ?H = ?d" "ncols ?H = ?d"
    by (simp_all add: dims_scaled_transpose fgm_dims ncols_def [symmetric])
       (simp add: ncols_def fgm_def neg_m_def)
  with mm e show ?thesis by blast
qed

lemma var_map_upt: "var (map y [0..<n]) = population_variance y n"
  by (simp add: var_def mean_def population_variance_def comp_def)

lemma constraint_formula:
  assumes "0 < nrows G" "length alp = dx" "length bet = ncols G"
  shows "constraint_fun G dx (alp @ bet)
       = Inr (population_variance (\<lambda>i. \<Sum>j\<leftarrow>[0..<ncols G]. entry G i j * bet ! j) (nrows G))"
  using assms by (simp add: constraint_fun_def matvec_entries bind_err_def var_map_upt)

lemma select_cols_Inr:
  assumes "select_cols m idxs = Inr F"
  shows "nrows F = nrows m \<and> ncols F = length idxs \<and> (wf_matrix m \<longrightarrow> wf_matrix F)"
proof -
  from assms have c: "cols F = map (\<lambda>i. cols m ! i) idxs" and n: "nrows F = nrows m"
    and b: "list_all (\<lambda>i. i < length (cols m)) idxs"
    by (auto simp: select_cols_def take_idx_def bind_err_Inr split: if_splits)
  have "wf_matrix F" if "wf_matrix m"
    using that b by (auto simp: wf_matrix_def c n list_all_iff)
  then show ?thesis
    using c n by (simp add: ncols_def)
qed

lemma higher_order_problem_parts:
  assumes "higher_order_problem ext cfg fm gm a0 b0 = Inr ((fi, gi), p)"
  shows "\<exists>F G H ch x0. select_cols fm fi = Inr F \<and> select_cols gm gi = Inr G
      \<and> nrows G = nrows F
      \<and> matmul (smult 2 (transpose_m (fgm F G))) (fgm F G) = Inr H
      \<and> p = solver_problem_of cfg F G (fgm F G) H ch x0"
  using assms unfolding higher_order_problem_def
  by (auto simp: bind_err_Inr split: prod.splits dest!: concat_cols_Inr) blast

lemma wf_kernel: "wf_matrix (kernel v d)"
  by (simp add: kernel_def wf_matrix_def list_all_iff)

lemma kernel_const: "kernel [1, 1, 1, 1] 2 = \<lparr>nrows = 4, cols = [[0, 0, 0, 0], [0, 0, 0, 0]]\<rparr>"
  by (simp add: kernel_def mean_def upt_rec)

lemma kernel_alt: "kernel [1, -1, 1, -1] (Suc 0) = \<lparr>nrows = 4, cols = [[1, -1, 1, -1]]\<rparr>"
  by (simp add: kernel_def mean_def upt_rec)

section \<open>The linear dependence detector\<close>

text \<open>
  C2, as amended. When \<open>_get_linearly_independent\<close> returns, the indices it returns for
  each variable are, in increasing order, exactly the columns whose absolute diagonal
  entry of the R factor exceeds \<open>delta\<close> together with the first column of that variable
  whose entry is at or below \<open>delta\<close>; every later column at or below \<open>delta\<close> is left
  out. The entry of column \<open>i\<close> is read at the position of that column in the augmented
  matrix.
\<close>

theorem get_linearly_independent_kept:
  assumes "get_linearly_independent ext cfg fm gm = Inr (fi, gi)"
  shows "\<exists>fg_bias rd. augmented fm gm = Inr fg_bias \<and> qr_r_diag ext fg_bias = Inr rd
      \<and> fi = kept_columns (delta cfg) rd (fst (aug_indices (ncols fm) (ncols gm))) (ncols fm)
      \<and> gi = kept_columns (delta cfg) rd (snd (aug_indices (ncols fm) (ncols gm))) (ncols gm)"
  using assms by (rule get_linearly_independent_Inr)

theorem get_linearly_independent_kept_witness:
  "\<exists>fg_bias rd. augmented (kernel sample_a 3) (kernel sample_b 1) = Inr fg_bias
      \<and> qr_r_diag sample_ext fg_bias = Inr rd
      \<and> [0, 1] = kept_columns (delta default_config) rd
           (fst (aug_indices (ncols (kernel sample_a 3)) (ncols (kernel sample_b 1))))
           (ncols (kernel sample_a 3))
      \<and> [0] = kept_columns (delta default_config) rd
           (snd (aug_indices (ncols (kernel sample_a 3)) (ncols (kernel sample_b 1))))
           (ncols (kernel sample_b 1))"
  by (rule get_linearly_independent_kept [OF sample_detector])

text \<open>
  The claim as stated, with column 0 as the only exempt column, fails: for the sixteen
  samples the square of \<open>sample_a\<close> (column 1 of F) has the diagonal entry 0, below
  \<open>delta = 1/100\<close>, and is returned among the retained columns, where the claim keeps
  column 0 alone.
\<close>

theorem get_linearly_independent_claimed_counterexample:
  "get_linearly_independent sample_ext default_config (kernel sample_a 3) (kernel sample_b 1)
     = Inr ([0, 1], [0])
   \<and> claimed_columns (delta default_config) [4, 4, 4, 0, 0] (fst (aug_indices 3 1)) 3 = [0]
   \<and> diag_entry [4, 4, 4, 0, 0] (fst (aug_indices 3 1)) 1 = 0"
  using sample_detector
  by (simp add: claimed_columns_def diag_entry_def aug31 default_config_def upt_rec)

text \<open>
  C10. When \<open>_get_linearly_independent\<close> returns for two matrices with at least one
  column each, index 0 is among the indices retained for F and among those retained for
  G, so neither list is empty.
\<close>

theorem get_linearly_independent_first:
  assumes "get_linearly_independent ext cfg fm gm = Inr (fi, gi)"
    and "0 < ncols fm" and "0 < ncols gm"
  shows "0 \<in> set fi \<and> 0 \<in> set gi \<and> fi \<noteq> [] \<and> gi \<noteq> []"
proof -
  from get_linearly_independent_Inr [OF assms(1)] obtain rd where
    "fi = kept_columns (delta cfg) rd (fst (aug_indices (ncols fm) (ncols gm))) (ncols fm)"
    "gi = kept_columns (delta cfg) rd (snd (aug_indices (ncols fm) (ncols gm))) (ncols gm)"
    by blast
  then have "0 \<in> set fi" "0 \<in> set gi"
    using assms(2,3) by (simp_all add: kept_columns_0)
  then show ?thesis by auto
qed

theorem get_linearly_independent_first_witness:
  "get_linearly_independent const_ext default_config (kernel [1, 1, 1, 1] 2) (kernel [1, -1, 1, -1] 1)
     = Inr ([0], [0])
   \<and> 0 \<in> set [0::nat] \<and> [0::nat] \<noteq> []"
  using const_detector
    get_linearly_independent_first [OF const_detector]
  by (simp add: ncols_kernel)

section \<open>The Single-Kernel variant\<close>

text \<open>
  C4. When the Single-Kernel computation returns, both branch computations (the shared
  degree on one side and degree 1 on the other, in both orders) have returned, the
  reported correlation is the maximum of their two correlations, and the coefficient
  vector of the side that did not win has the length of the shared degree and is zero
  everywhere except at index 0, which holds entry 0 of that side's vector in the
  selected branch; the other vector is the one of the selected branch.
\<close>

theorem SingleKernelHGR_compute_maximum:
  assumes "SingleKernelHGR_compute ext cfg degree st x y = Inr r"
  shows "\<exists>ra rb. kbhgr ext cfg st x y degree 1 (fst (warm_start st)) None = Inr ra
      \<and> kbhgr ext cfg st x y 1 degree None (snd (warm_start st)) = Inr rb
      \<and> correlation r = max (correlation ra) (correlation rb)
      \<and> (if correlation ra > correlation rb
          then alpha r = alpha ra \<and> beta r = hd (beta ra) # replicate (degree - 1) 0
          else beta r = beta rb \<and> alpha r = hd (alpha rb) # replicate (degree - 1) 0)"
proof -
  from SingleKernelHGR_compute_Inr [OF assms] obtain ra rb where
    "kbhgr ext cfg st x y degree 1 (fst (warm_start st)) None = Inr ra"
    "kbhgr ext cfg st x y 1 degree None (snd (warm_start st)) = Inr rb"
    "correlation r = max (correlation ra) (correlation rb)"
    "if correlation ra > correlation rb
     then alpha r = alpha ra \<and> beta ra \<noteq> [] \<and> beta r = hd (beta ra) # replicate (degree - 1) 0
     else beta r = beta rb \<and> alpha rb \<noteq> [] \<and> alpha r = hd (alpha rb) # replicate (degree - 1) 0"
    by blast
  then show ?thesis
    by (intro exI [of _ ra] exI [of _ rb]) (auto split: if_splits)
qed

theorem SingleKernelHGR_compute_maximum_witness:
  "\<exists>ra rb. kbhgr strict_ext tie_config fresh_state [1, 1, -1, -1] [5, -1, -1, -3] 2 1
          (fst (warm_start fresh_state)) None = Inr ra
      \<and> kbhgr strict_ext tie_config fresh_state [1, 1, -1, -1] [5, -1, -1, -3] 1 2 None
          (snd (warm_start fresh_state)) = Inr rb
      \<and> correlation \<lparr>res_a = [1, 1, -1, -1], res_b = [5, -1, -1, -3], correlation = 2 / 3,
            num_call = 1, alpha = [-2, 1], beta = [1, 0]\<rparr> = max (correlation ra) (correlation rb)
      \<and> (if correlation ra > correlation rb
          then alpha \<lparr>res_a = [1, 1, -1, -1], res_b = [5, -1, -1, -3], correlation = 2 / 3,
                 num_call = 1, alpha = [-2, 1], beta = [1, 0]\<rparr> = alpha ra
             \<and> beta \<lparr>res_a = [1, 1, -1, -1], res_b = [5, -1, -1, -3], correlation = 2 / 3,
                 num_call = 1, alpha = [-2, 1], beta = [1, 0]\<rparr> = hd (beta ra) # replicate (2 - 1) 0
          else beta \<lparr>res_a = [1, 1, -1, -1], res_b = [5, -1, -1, -3], correlation = 2 / 3,
                 num_call = 1, alpha = [-2, 1], beta = [1, 0]\<rparr> = beta rb
             \<and> alpha \<lparr>res_a = [1, 1, -1, -1], res_b = [5, -1, -1, -3], correlation = 2 / 3,
                 num_call = 1, alpha = [-2, 1], beta = [1, 0]\<rparr> = hd (alpha rb) # replicate (2 - 1) 0)"
  by (rule SingleKernelHGR_compute_maximum [OF strict_single])

text \<open>
  C1, as amended. When the two branch correlations are equal, the returned result carries
  the coefficient vectors of the second computed branch (degree 1 for \<open>a\<close>, the shared
  degree for \<open>b\<close>): \<open>beta\<close> is that branch's full vector and \<open>alpha\<close> is zero except at
  index 0, which holds that branch's \<open>alpha[0]\<close>.
\<close>

theorem SingleKernelHGR_compute_tie:
  assumes "SingleKernelHGR_compute ext cfg degree st x y = Inr r"
    and "kbhgr ext cfg st x y degree 1 (fst (warm_start st)) None = Inr ra"
    and "kbhgr ext cfg st x y 1 degree None (snd (warm_start st)) = Inr rb"
    and "correlation ra = correlation rb"
  shows "beta r = beta rb \<and> alpha r = hd (alpha rb) # replicate (degree - 1) 0
      \<and> correlation r = correlation rb"
  using SingleKernelHGR_compute_Inr [OF assms(1)] assms(2-4) by auto

theorem SingleKernelHGR_compute_tie_witness:
  "beta \<lparr>res_a = [-2, 2], res_b = [-1, 1], correlation = 1, num_call = 1,
          alpha = [1, 0], beta = [1, 0]\<rparr>
     = beta \<lparr>res_a = [-2, 2], res_b = [-1, 1], correlation = 1, num_call = 1,
          alpha = [1], beta = [1, 0]\<rparr>
   \<and> alpha \<lparr>res_a = [-2, 2], res_b = [-1, 1], correlation = 1, num_call = 1,
          alpha = [1, 0], beta = [1, 0]\<rparr>
     = hd (alpha \<lparr>res_a = [-2, 2], res_b = [-1, 1], correlation = 1, num_call = 1,
          alpha = [1], beta = [1, 0]\<rparr>) # replicate (2 - 1) 0
   \<and> correlation \<lparr>res_a = [-2, 2], res_b = [-1, 1], correlation = 1, num_call = 1,
          alpha = [1, 0], beta = [1, 0]\<rparr>
     = correlation \<lparr>res_a = [-2, 2], res_b = [-1, 1], correlation = 1, num_call = 1,
          alpha = [1], beta = [1, 0]\<rparr>"
proof -
  have a: "kbhgr tie_ext tie_config fresh_state [-2, 2] [-1, 1] 2 1
      (fst (warm_start fresh_state)) None
     = Inr \<lparr>res_a = [-2, 2], res_b = [-1, 1], correlation = 1, num_call = 1,
            alpha = [1 / 2, 0], beta = [1]\<rparr>"
    by (simp only: warm_start_fresh fst_conv tie_a)
  have b: "kbhgr tie_ext tie_config fresh_state [-2, 2] [-1, 1] 1 2 None
      (snd (warm_start fresh_state))
     = Inr \<lparr>res_a = [-2, 2], res_b = [-1, 1], correlation = 1, num_call = 1,
            alpha = [1], beta = [1, 0]\<rparr>"
    by (simp only: warm_start_fresh snd_conv tie_b)
  have c: "correlation \<lparr>res_a = [-2, 2], res_b = [-1, 1], correlation = 1, num_call = 1,
            alpha = [1 / 2, 0], beta = [1]\<rparr>
     = correlation \<lparr>res_a = [-2, 2], res_b = [-1, 1], correlation = 1, num_call = 1,
            alpha = [1], beta = [1, 0]\<rparr>"
    by simp
  show ?thesis
    by (rule SingleKernelHGR_compute_tie [OF tie_single a b c])
qed

text \<open>
  The claim as stated fails: for \<open>a = [-2, 2]\<close>, \<open>b = [-1, 1]\<close>, degree 2 and \<open>eps = 0\<close>
  both branches have the correlation 1, the first branch has \<open>alpha = [1/2, 0]\<close>, and the
  result has \<open>alpha = [1, 0]\<close>, built from the second branch.
\<close>

theorem SingleKernelHGR_compute_tie_counterexample:
  "kbhgr tie_ext tie_config fresh_state [-2, 2] [-1, 1] 2 1 None None
     = Inr \<lparr>res_a = [-2, 2], res_b = [-1, 1], correlation = 1, num_call = 1,
            alpha = [1 / 2, 0], beta = [1]\<rparr>
   \<and> kbhgr tie_ext tie_config fresh_state [-2, 2] [-1, 1] 1 2 None None
     = Inr \<lparr>res_a = [-2, 2], res_b = [-1, 1], correlation = 1, num_call = 1,
            alpha = [1], beta = [1, 0]\<rparr>
   \<and> SingleKernelHGR_compute tie_ext tie_config 2 fresh_state [-2, 2] [-1, 1]
     = Inr \<lparr>res_a = [-2, 2], res_b = [-1, 1], correlation = 1, num_call = 1,
            alpha = [1, 0], beta = [1, 0]\<rparr>"
  using tie_a tie_b tie_single by simp

section \<open>The reconstruction of the coefficient vectors\<close>

text \<open>
  C7. When \<open>_higher_order_coefficients\<close> returns \<open>alpha\<close> and \<open>beta\<close>, the detector has
  returned the retained indices and the solver a point \<open>x\<close>; \<open>alpha\<close> has one entry per
  column of F and \<open>beta\<close> one per column of G, both are zero at every index that is not
  retained, and, the solver's point having one entry per retained column, the entry of
  \<open>alpha\<close> at the \<open>k\<close>-th retained index of F is \<open>x[k]\<close> and the entry of \<open>beta\<close> at the
  \<open>k\<close>-th retained index of G is \<open>x[dx + k]\<close>.
\<close>

theorem higher_order_coefficients_scatter:
  assumes "higher_order_coefficients ext cfg fm gm a0 b0 = Inr (alp, bet)"
  shows "\<exists>fi gi p x. get_linearly_independent ext cfg fm gm = Inr (fi, gi)
      \<and> higher_order_problem ext cfg fm gm a0 b0 = Inr ((fi, gi), p)
      \<and> minimize ext p = Inr x
      \<and> length alp = ncols fm \<and> length bet = ncols gm
      \<and> (\<forall>i<ncols fm. i \<notin> set fi \<longrightarrow> alp ! i = 0)
      \<and> (\<forall>i<ncols gm. i \<notin> set gi \<longrightarrow> bet ! i = 0)
      \<and> (length x = length fi + length gi \<longrightarrow>
            (\<forall>k<length fi. alp ! (fi ! k) = x ! k)
          \<and> (\<forall>k<length gi. bet ! (gi ! k) = x ! (length fi + k)))"
proof -
  from higher_order_coefficients_Inr [OF assms] obtain fi gi p x where
    p: "higher_order_problem ext cfg fm gm a0 b0 = Inr ((fi, gi), p)" and
    x: "minimize ext p = Inr x" and
    pa: "put_idx (replicate (ncols fm) 0) fi (take (length fi) x) = Inr alp" and
    pb: "put_idx (replicate (ncols gm) 0) gi (drop (length fi) x) = Inr bet"
    by blast
  have g: "get_linearly_independent ext cfg fm gm = Inr (fi, gi)"
    using p by (rule higher_order_problem_Inr)
  from get_linearly_independent_Inr [OF g] have
    d: "distinct fi" "distinct gi"
    by (auto simp: kept_columns_distinct)
  have la: "length alp = ncols fm" and lb: "length bet = ncols gm"
    using put_idx_Inr_length [OF pa] put_idx_Inr_length [OF pb] by simp_all
  have za: "alp ! i = 0" if "i < ncols fm" "i \<notin> set fi" for i
    using put_idx_Inr_notin [OF pa that(2)] that(1) by simp
  have zb: "bet ! i = 0" if "i < ncols gm" "i \<notin> set gi" for i
    using put_idx_Inr_notin [OF pb that(2)] that(1) by simp
  have va: "alp ! (fi ! k) = x ! k"
    if "length x = length fi + length gi" "k < length fi" for k
    using put_idx_Inr_in [OF pa d(1) _ that(2)] that by simp
  have vb: "bet ! (gi ! k) = x ! (length fi + k)"
    if "length x = length fi + length gi" "k < length gi" for k
    using put_idx_Inr_in [OF pb d(2) _ that(2)] that by simp
  show ?thesis
    using g p x la lb za zb va vb by blast
qed

theorem higher_order_coefficients_scatter_witness:
  "\<exists>fi gi p x. get_linearly_independent const_ext default_config (kernel [1, 1, 1, 1] 2)
        (kernel [1, -1, 1, -1] 1) = Inr (fi, gi)
      \<and> higher_order_problem const_ext default_config (kernel [1, 1, 1, 1] 2)
        (kernel [1, -1, 1, -1] 1) None None = Inr ((fi, gi), p)
      \<and> minimize const_ext p = Inr x
      \<and> length [3, 0 :: real] = ncols (kernel [1, 1, 1, 1] 2)
      \<and> length [5 :: real] = ncols (kernel [1, -1, 1, -1] 1)
      \<and> (\<forall>i<ncols (kernel [1, 1, 1, 1] 2). i \<notin> set fi \<longrightarrow> [3, 0 :: real] ! i = 0)
      \<and> (\<forall>i<ncols (kernel [1, -1, 1, -1] 1). i \<notin> set gi \<longrightarrow> [5 :: real] ! i = 0)
      \<and> (length x = length fi + length gi \<longrightarrow>
            (\<forall>k<length fi. [3, 0] ! (fi ! k) = x ! k)
          \<and> (\<forall>k<length gi. [5] ! (gi ! k) = x ! (length fi + k)))"
  by (rule higher_order_coefficients_scatter [OF const_coefficients])

section \<open>Re-applying the transformations\<close>

text \<open>
  C9. On an instance whose \<open>last_result\<close> is empty, \<open>f\<close> and \<open>g\<close> raise the assertion
  error. On an instance whose \<open>last_result\<close> holds the result of a computation that
  returned (of the Double-Kernel variant with the degrees of the instance, or of the
  Single-Kernel variant with its shared degree), they do not raise: \<open>f\<close> returns the
  product of the kernel matrix of the given vector with the stored \<open>alpha\<close>, and \<open>g\<close> the
  one with the stored \<open>beta\<close>.
\<close>

theorem copula_f_g_after_compute:
  "(last_result st = None \<longrightarrow>
      copula_f (kb_f da) st x = Inl AssertionError \<and> copula_g (kb_g db) st y = Inl AssertionError)
   \<and> (\<forall>r. last_result st = Some r \<longrightarrow>
        (DoubleKernelHGR_compute ext cfg da db st0 u v = Inr r
         \<or> (da = db \<and> SingleKernelHGR_compute ext cfg da st0 u v = Inr r)) \<longrightarrow>
        copula_f (kb_f da) st x
          = Inr (map (\<lambda>i. dotp (row (kernel x da) i) (alpha r)) [0..<length x])
        \<and> copula_g (kb_g db) st y
          = Inr (map (\<lambda>i. dotp (row (kernel y db) i) (beta r)) [0..<length y]))"
proof (intro conjI allI impI)
  assume "last_result st = None"
  then show "copula_f (kb_f da) st x = Inl AssertionError"
    and "copula_g (kb_g db) st y = Inl AssertionError"
    by (simp_all add: copula_f_def copula_g_def)
next
  fix r
  assume s: "last_result st = Some r"
    and c: "DoubleKernelHGR_compute ext cfg da db st0 u v = Inr r
         \<or> (da = db \<and> SingleKernelHGR_compute ext cfg da st0 u v = Inr r)"
  have l: "length (alpha r) = da \<and> length (beta r) = db"
    using c DoubleKernelHGR_compute_length SingleKernelHGR_compute_length by blast
  show "copula_f (kb_f da) st x
          = Inr (map (\<lambda>i. dotp (row (kernel x da) i) (alpha r)) [0..<length x])"
    using s l by (simp add: kb_f_Some)
  show "copula_g (kb_g db) st y
          = Inr (map (\<lambda>i. dotp (row (kernel y db) i) (beta r)) [0..<length y])"
    using s l by (simp add: kb_g_Some)
qed

theorem copula_f_g_after_compute_witness:
  "copula_f (kb_f 2) fresh_state [3, 5] = Inl AssertionError
   \<and> copula_g (kb_g 2) fresh_state [3, 5] = Inl AssertionError
   \<and> copula_f (kb_f 2)
        \<lparr>num_calls = 1, last_result = Some \<lparr>res_a = [-2, 2], res_b = [-1, 1], correlation = 1,
            num_call = 1, alpha = [1, 0], beta = [1, 0]\<rparr>\<rparr> [3, 5] = Inr [-1, 1]
   \<and> copula_g (kb_g 2)
        \<lparr>num_calls = 1, last_result = Some \<lparr>res_a = [-2, 2], res_b = [-1, 1], correlation = 1,
            num_call = 1, alpha = [1, 0], beta = [1, 0]\<rparr>\<rparr> [3, 5] = Inr [-1, 1]"
proof -
  let ?r = "\<lparr>res_a = [-2, 2], res_b = [-1, 1], correlation = 1,
            num_call = 1, alpha = [1, 0], beta = [1, 0]\<rparr>"
  let ?st = "\<lparr>num_calls = 1, last_result = Some ?r\<rparr>"
  have n: "last_result fresh_state = None"
    by (simp add: fresh_state_def)
  have s: "last_result ?st = Some ?r"
    by simp
  have c: "DoubleKernelHGR_compute tie_ext tie_config 2 2 fresh_state [-2, 2] [-1, 1] = Inr ?r
     \<or> ((2::nat) = 2 \<and> SingleKernelHGR_compute tie_ext tie_config 2 fresh_state [-2, 2] [-1, 1] = Inr ?r)"
    using tie_single by simp
  have a: "copula_f (kb_f 2) fresh_state [3, 5] = Inl AssertionError
      \<and> copula_g (kb_g 2) fresh_state [3, 5] = Inl AssertionError"
    using copula_f_g_after_compute [of fresh_state 2 "[3, 5]" 2 "[3, 5]"] n by blast
  have b: "copula_f (kb_f 2) ?st [3, 5]
          = Inr (map (\<lambda>i. dotp (row (kernel [3, 5] 2) i) (alpha ?r)) [0..<length [3, 5 :: real]])
        \<and> copula_g (kb_g 2) ?st [3, 5]
          = Inr (map (\<lambda>i. dotp (row (kernel [3, 5] 2) i) (beta ?r)) [0..<length [3, 5 :: real]])"
    using copula_f_g_after_compute [of ?st 2 "[3, 5]" 2 "[3, 5]" tie_ext tie_config
        fresh_state "[-2, 2]" "[-1, 1]"] s c by blast
  show ?thesis
    using a b by (simp add: kernel_35 row_def dotp_def upt_rec)
qed

section \<open>The correlation\<close>

text \<open>
  C5. For two vectors of the same positive length whose standardisation does not divide
  by zero, the computation with \<open>degree_a = degree_b = 1\<close> depends on none of the
  numerical libraries: both projections are the standardised inputs
  \<open>(v - mean v) / (std v + eps)\<close>, both coefficient vectors are \<open>[1]\<close>, and the correlation
  is \<open>|cov(a, b)| / ((std a + eps) (std b + eps))\<close>, the absolute Pearson coefficient with
  \<open>eps\<close> added to the two standard deviations; for \<open>eps = 0\<close> it is the absolute Pearson
  coefficient.
\<close>

theorem kbhgr_degree_one:
  assumes "length x = length y" and "x \<noteq> []"
    and "std x + eps cfg \<noteq> 0" and "std y + eps cfg \<noteq> 0"
  shows "standardize x (eps cfg) = Inr (map (\<lambda>u. (u - mean x) / (std x + eps cfg)) x)
     \<and> standardize y (eps cfg) = Inr (map (\<lambda>v. (v - mean y) / (std y + eps cfg)) y)
     \<and> kbhgr_projections ext cfg x y 1 1 a0 b0
         = Inr ([1], [1], map (\<lambda>u. (u - mean x) / (std x + eps cfg)) x,
                map (\<lambda>v. (v - mean y) / (std y + eps cfg)) y)
     \<and> kbhgr ext cfg st x y 1 1 a0 b0
         = Inr \<lparr>res_a = x, res_b = y,
                correlation = \<bar>cov x y / ((std x + eps cfg) * (std y + eps cfg))\<bar>,
                num_call = num_calls st, alpha = [1], beta = [1]\<rparr>
     \<and> (eps cfg = 0 \<longrightarrow>
          kbhgr ext cfg st x y 1 1 a0 b0
            = Inr \<lparr>res_a = x, res_b = y, correlation = \<bar>pearson x y\<bar>,
                   num_call = num_calls st, alpha = [1], beta = [1]\<rparr>)"
proof -
  have sx: "standardize x (eps cfg) = Inr (map (\<lambda>u. (u - mean x) / (std x + eps cfg)) x)"
    and sy: "standardize y (eps cfg) = Inr (map (\<lambda>v. (v - mean y) / (std y + eps cfg)) y)"
    using assms(3,4) by (simp_all add: standardize_Inr)
  have p: "kbhgr_projections ext cfg x y 1 1 a0 b0
         = Inr ([1], [1], map (\<lambda>u. (u - mean x) / (std x + eps cfg)) x,
                map (\<lambda>v. (v - mean y) / (std y + eps cfg)) y)"
    by (simp add: kbhgr_projections_def sx sy bind_err_def)
  note v = kbhgr_degree_one_value [OF assms, of ext st a0 b0]
  have "eps cfg = 0 \<longrightarrow>
          kbhgr ext cfg st x y 1 1 a0 b0
            = Inr \<lparr>res_a = x, res_b = y, correlation = \<bar>pearson x y\<bar>,
                   num_call = num_calls st, alpha = [1], beta = [1]\<rparr>"
    using v by (simp add: pearson_def)
  with sx sy p v show ?thesis by blast
qed

theorem kbhgr_degree_one_witness:
  "kbhgr strict_ext tie_config fresh_state [1, 1, -1, -1] [5, -1, -1, -3] 1 1 None None
     = Inr \<lparr>res_a = [1, 1, -1, -1], res_b = [5, -1, -1, -3], correlation = 2 / 3,
            num_call = 1, alpha = [1], beta = [1]\<rparr>
   \<and> pearson [1, 1, -1, -1] [5, -1, -1, -3] = 2 / 3"
proof -
  have e: "eps tie_config = 0"
    by (simp add: tie_config_def)
  have h: "length [1, 1, -1, -1 :: real] = length [5, -1, -1, -3 :: real]"
    "[1, 1, -1, -1 :: real] \<noteq> []"
    "std [1, 1, -1, -1] + eps tie_config \<noteq> 0"
    "std [5, -1, -1, -3] + eps tie_config \<noteq> 0"
    by (simp_all add: e std_s1 std_s2)
  have p: "pearson [1, 1, -1, -1] [5, -1, -1, -3] = 2 / 3"
    by (simp add: pearson_def cov_s12 std_s1 std_s2)
  have t: "eps tie_config = 0 \<longrightarrow>
      kbhgr strict_ext tie_config fresh_state [1, 1, -1, -1] [5, -1, -1, -3] 1 1 None None
        = Inr \<lparr>res_a = [1, 1, -1, -1], res_b = [5, -1, -1, -3],
               correlation = \<bar>pearson [1, 1, -1, -1] [5, -1, -1, -3]\<bar>,
               num_call = num_calls fresh_state, alpha = [1], beta = [1]\<rparr>"
    using kbhgr_degree_one [OF h, where ext = strict_ext and st = fresh_state
        and ?a0.0 = None and ?b0.0 = None] by blast
  have n: "num_calls fresh_state = 1"
    by (simp add: fresh_state_def)
  show ?thesis
    using t e by (simp add: p n)
qed




section \<open>The problem given to the solver\<close>

text \<open>
  C6. Let \<open>_higher_order_coefficients\<close> build its problem for kernel matrices with columns of
  equal length and at least one sample, and let F and G be the reduced matrices. At every
  point \<open>(alpha, beta)\<close> with one coefficient per column the objective function returns the
  value \<open>||F alpha - G beta||^2 + lasso * ||[alpha, beta]||_1\<close> and the gradient
  \<open>2 [F -G]^T (F alpha - G beta) + lasso * sign([alpha, beta])\<close>; the Hessian handed to the
  solver is the square matrix with the entries of \<open>2 [F -G]^T [F -G]\<close>; the constraint
  function is the variance of \<open>G beta\<close> with the denominator \<open>n\<close>, and both of its bounds
  are 1.
\<close>

theorem solver_problem_formulas:
  assumes "higher_order_problem ext cfg fm gm a0 b0 = Inr ((fi, gi), p)"
    and "wf_matrix fm" and "wf_matrix gm" and "0 < nrows fm"
  shows "\<exists>F G. select_cols fm fi = Inr F \<and> select_cols gm gi = Inr G
      \<and> (\<forall>alp bet. length alp = ncols F \<and> length bet = ncols G \<longrightarrow>
            sp_fun p (alp @ bet)
              = Inr (ls_value F G (lasso cfg) alp bet, ls_gradient F G (lasso cfg) alp bet)
          \<and> sp_cst_fun p (alp @ bet)
              = Inr (population_variance
                       (\<lambda>i. \<Sum>j\<leftarrow>[0..<ncols G]. entry G i j * bet ! j) (nrows G)))
      \<and> nrows (sp_hess p) = ncols F + ncols G \<and> ncols (sp_hess p) = ncols F + ncols G
      \<and> (\<forall>j<ncols F + ncols G. \<forall>k<ncols F + ncols G.
            entry (sp_hess p) j k = ls_hessian_entry F G j k)
      \<and> sp_cst_lb p = 1 \<and> sp_cst_ub p = 1"
proof -
  from higher_order_problem_parts [OF assms(1)] obtain F G H ch x0 where
    sF: "select_cols fm fi = Inr F" and sG: "select_cols gm gi = Inr G" and
    n: "nrows G = nrows F" and
    H: "matmul (smult 2 (transpose_m (fgm F G))) (fgm F G) = Inr H" and
    p: "p = solver_problem_of cfg F G (fgm F G) H ch x0"
    by blast
  have wfF: "wf_matrix F" and wfG: "wf_matrix G" and nF: "nrows F = nrows fm"
    using select_cols_Inr [OF sF] select_cols_Inr [OF sG] assms(2,3) by simp_all
  have nG: "0 < nrows G"
    using n nF assms(4) by simp
  have o: "sp_fun p (alp @ bet)
         = Inr (ls_value F G (lasso cfg) alp bet, ls_gradient F G (lasso cfg) alp bet)"
    if "length alp = ncols F" "length bet = ncols G" for alp bet
    unfolding p solver_problem_of_def using objective_formula [OF wfG n that] by simp
  have c: "sp_cst_fun p (alp @ bet)
         = Inr (population_variance
                  (\<lambda>i. \<Sum>j\<leftarrow>[0..<ncols G]. entry G i j * bet ! j) (nrows G))"
    if "length alp = ncols F" "length bet = ncols G" for alp bet
    unfolding p solver_problem_of_def using constraint_formula [OF nG that] by simp
  from hessian_formula [OF wfF wfG n] H have
    h: "nrows H = ncols F + ncols G" "ncols H = ncols F + ncols G"
      "\<forall>j<ncols F + ncols G. \<forall>k<ncols F + ncols G. entry H j k = ls_hessian_entry F G j k"
    by auto
  have hp: "sp_hess p = H" "sp_cst_lb p = 1" "sp_cst_ub p = 1"
    by (simp_all add: p solver_problem_of_def)
  show ?thesis
    using sF sG o c h hp by (intro exI [of _ F] exI [of _ G]) simp
qed

theorem solver_problem_formulas_witness:
  "\<exists>p. higher_order_problem const_ext default_config (kernel [1, 1, 1, 1] 2)
          (kernel [1, -1, 1, -1] 1) None None = Inr (([0], [0]), p)
      \<and> sp_fun p [3, 5] = Inr (100, [0, 40])
      \<and> sp_cst_fun p [3, 5] = Inr 25
      \<and> entry (sp_hess p) 1 1 = 8
      \<and> sp_cst_lb p = 1 \<and> sp_cst_ub p = 1"
proof -
  let ?fm = "kernel [1, 1, 1, 1] 2"
  let ?gm = "kernel [1, -1, 1, -1] 1"
  let ?F = "\<lparr>nrows = 4, cols = [[0, 0, 0, 0 :: real]]\<rparr>"
  let ?G = "\<lparr>nrows = 4, cols = [[1, -1, 1, -1 :: real]]\<rparr>"
  have "\<exists>p. higher_order_problem const_ext default_config ?fm ?gm None None = Inr (([0], [0]), p)"
    by (rule higher_order_problem_total [OF const_detector])
       (simp_all add: ncols_kernel default_config_def)
  then obtain p where
    hp: "higher_order_problem const_ext default_config ?fm ?gm None None = Inr (([0], [0]), p)"
    by blast
  have n: "0 < nrows ?fm"
    by (simp add: ncols_kernel)
  have sF: "select_cols ?fm [0] = Inr ?F" and sG: "select_cols ?gm [0] = Inr ?G"
    by (simp_all add: select_cols_def take_idx_def bind_err_def kernel_const kernel_alt)
  from solver_problem_formulas [OF hp wf_kernel wf_kernel n] sF sG have
    f: "\<forall>alp bet. length alp = ncols ?F \<and> length bet = ncols ?G \<longrightarrow>
            sp_fun p (alp @ bet)
              = Inr (ls_value ?F ?G (lasso default_config) alp bet,
                     ls_gradient ?F ?G (lasso default_config) alp bet)
          \<and> sp_cst_fun p (alp @ bet)
              = Inr (population_variance
                       (\<lambda>i. \<Sum>j\<leftarrow>[0..<ncols ?G]. entry ?G i j * bet ! j) (nrows ?G))" and
    h: "\<forall>j<ncols ?F + ncols ?G. \<forall>k<ncols ?F + ncols ?G.
            entry (sp_hess p) j k = ls_hessian_entry ?F ?G j k" and
    b: "sp_cst_lb p = 1" "sp_cst_ub p = 1"
    by auto
  have c1: "ncols ?F = 1" "ncols ?G = 1"
    by (simp_all add: ncols_def)
  from f [rule_format, of "[3]" "[5]"] have
    "sp_fun p [3, 5] = Inr (ls_value ?F ?G 0 [3] [5], ls_gradient ?F ?G 0 [3] [5])"
    "sp_cst_fun p [3, 5]
       = Inr (population_variance (\<lambda>i. \<Sum>j\<leftarrow>[0..<1]. entry ?G i j * [5] ! j) 4)"
    by (simp_all add: c1 default_config_def)
  moreover have "ls_value ?F ?G 0 [3] [5] = 100"
    by (simp add: ls_value_def residual_def entry_def c1 upt_rec)
  moreover have "ls_gradient ?F ?G 0 [3] [5] = [0, 40]"
    by (simp add: ls_gradient_def fg_entry_def residual_def entry_def c1 upt_rec)
  moreover have "population_variance (\<lambda>i. \<Sum>j\<leftarrow>[0..<1]. entry ?G i j * [5] ! j) 4 = 25"
    by (simp add: population_variance_def entry_def upt_rec)
  moreover have "entry (sp_hess p) 1 1 = 8"
    using h [rule_format, of 1 1]
    by (simp add: c1 ls_hessian_entry_def fg_entry_def entry_def upt_rec)
  ultimately show ?thesis
    using hp b by (intro exI [of _ p]) simp
qed

section \<open>Shape errors of a call\<close>

text \<open>
  C8. A call with an argument that is not one-dimensional, or with two vectors of
  different lengths, raises an assertion error whatever \<open>_value\<close> and \<open>_factor\<close> are
  (neither is evaluated), and the instance state, the call counter and the stored
  result, is the one before the call.
\<close>

theorem call_shape_error:
  assumes "ndim x \<noteq> 1 \<or> ndim y \<noteq> 1 \<or> len x \<noteq> len y"
  shows "call value_fn factor st x y = (Inl AssertionError, st)"
  using assms by (auto simp: call_def)

theorem call_shape_error_witness:
  "call (\<lambda>s u v. Inr (1, ())) (\<lambda>u v. 1)
        \<lparr>num_calls = 4, last_result = None\<rparr>
        \<lparr>shape = [2], data = [1, 2]\<rparr> \<lparr>shape = [3], data = [1, 2, 3]\<rparr>
      = (Inl AssertionError, \<lparr>num_calls = 4, last_result = None\<rparr>)"
proof -
  have h: "ndim \<lparr>shape = [2], data = [1, 2]\<rparr> \<noteq> 1
      \<or> ndim \<lparr>shape = [3], data = [1, 2, 3]\<rparr> \<noteq> 1
      \<or> len \<lparr>shape = [2], data = [1, 2]\<rparr> \<noteq> len \<lparr>shape = [3], data = [1, 2, 3]\<rparr>"
    by (simp add: len_def)
  show ?thesis
    by (rule call_shape_error [OF h])
qed


end
